theory Spec2Isabelle
  imports Main "HOL-Library.Word"
begin

section \<open>JavaScript values used by the controllers\<close>

text \<open>
  A JavaScript string is a sequence of UTF-16 code units; \<open>s.length\<close> is the number of
  code units. \<open>js\<close> embeds an ASCII literal.
\<close>

type_synonym js_char = "16 word"
type_synonym js_string = "js_char list"

definition js :: "string \<Rightarrow> js_string" where
  "js s = map of_char s"

text \<open>
  ECMAScript WhiteSpace and LineTerminator code units. \<open>String.prototype.trim\<close> strips
  exactly these, and the regular expression class \<open>\s\<close> matches exactly these.
\<close>

definition is_ws :: "js_char \<Rightarrow> bool" where
  "is_ws c \<longleftrightarrow>
     c = 0x0009 \<or> c = 0x000A \<or> c = 0x000B \<or> c = 0x000C \<or> c = 0x000D \<or> c = 0x0020 \<or>
     c = 0x00A0 \<or> c = 0x1680 \<or> (0x2000 \<le> c \<and> c \<le> 0x200A) \<or> c = 0x2028 \<or>
     c = 0x2029 \<or> c = 0x202F \<or> c = 0x205F \<or> c = 0x3000 \<or> c = 0xFEFF"

definition js_trim :: "js_string \<Rightarrow> js_string" where
  "js_trim s = rev (dropWhile is_ws (rev (dropWhile is_ws s)))"

text \<open>
  \<open>s.split(/\s+/)\<close>: the matcher is tried at each position; at a whitespace unit it
  consumes the whole run, the piece collected so far is pushed and the scan resumes after
  the run; at the end of the string the last piece is pushed. \<open>cur\<close> is the current
  piece, reversed.
\<close>

function split_ws :: "js_string \<Rightarrow> js_string \<Rightarrow> js_string list" where
  "split_ws cur [] = [rev cur]"
| "split_ws cur (c # cs) =
     (if is_ws c then rev cur # split_ws [] (dropWhile is_ws cs)
      else split_ws (c # cur) cs)"
  by pat_completeness auto
termination
  by (relation "measure (\<lambda>(cur, s). length s)")
     (auto simp: less_Suc_eq_le length_dropWhile_le)

definition js_split_ws :: "js_string \<Rightarrow> js_string list" where
  "js_split_ws s = split_ws [] s"

text \<open>
  The word count of the pre-save hook:
  \<open>content.trim().split(/\s+/).filter(word => word.length > 0).length\<close>.
\<close>

definition count_words :: "js_string \<Rightarrow> nat" where
  "count_words c = length (filter (\<lambda>word. length word > 0) (js_split_ws (js_trim c)))"

text \<open>
  The specification's reading of the same number: cut the text at every whitespace
  unit and keep the pieces that are not empty.
\<close>

fun ws_fields :: "js_string \<Rightarrow> js_string list" where
  "ws_fields [] = [[]]"
| "ws_fields (c # cs) =
     (if is_ws c then [] # ws_fields cs
      else (case ws_fields cs of [] \<Rightarrow> [[c]] | w # ws \<Rightarrow> (c # w) # ws))"

definition ws_tokens :: "js_string \<Rightarrow> js_string list" where
  "ws_tokens s = filter (\<lambda>w. w \<noteq> []) (ws_fields s)"

text \<open>
  Truthiness of an optional string, and its negation \<open>!v\<close>: \<open>undefined\<close> and the
  empty string are falsy.
\<close>

fun truthy_str :: "js_string option \<Rightarrow> bool" where
  "truthy_str None = False"
| "truthy_str (Some s) = (s \<noteq> [])"

fun falsy_str :: "js_string option \<Rightarrow> bool" where
  "falsy_str None = True"
| "falsy_str (Some s) = (s = [])"

text \<open>\<open>v || d\<close> on an optional string.\<close>

fun or_default :: "js_string option \<Rightarrow> js_string \<Rightarrow> js_string" where
  "or_default None d = d"
| "or_default (Some s) d = (if s = [] then d else s)"

text \<open>JavaScript numbers as far as the controllers compute with them.\<close>

datatype js_num = Num int | NaN | PosInf | NegInf

section \<open>Documents\<close>

type_synonym oid = nat
type_synonym date = int

record attachment =
  att_filename :: js_string
  att_originalName :: js_string
  att_mimeType :: js_string
  att_size :: nat
  att_url :: js_string
  att_publicId :: "js_string option"

text \<open>\<open>noteSchema\<close> of \<open>models/Note.js\<close>, with the timestamps Mongoose maintains.\<close>

record note_doc =
  note_id :: oid
  title :: js_string
  content :: js_string
  contentType :: js_string
  user :: oid
  folder :: "oid option"
  tags :: "oid list"
  isPinned :: bool
  isArchived :: bool
  isTrashed :: bool
  trashedAt :: "date option"
  color :: js_string
  attachments :: "attachment list"
  wordCount :: nat
  characterCount :: nat
  note_order :: int
  isFavorite :: bool
  lastViewedAt :: "date option"
  viewCount :: nat
  createdAt :: date
  updatedAt :: date

text \<open>\<open>tagSchema\<close> of \<open>models/Tag.js\<close>.\<close>

record tag =
  tag_id :: oid
  tag_name :: js_string
  tag_color :: js_string
  tag_user :: oid
  tag_createdAt :: date
  tag_updatedAt :: date

text \<open>\<open>folderSchema\<close> of the Folder model.\<close>

record folder_doc =
  folder_id :: oid
  folder_name :: js_string
  folder_icon :: js_string
  folder_color :: js_string
  folder_user :: oid
  folder_parent :: "oid option"
  folder_order :: int
  folder_createdAt :: date
  folder_updatedAt :: date

text \<open>
  \<open>sharedNoteSchema\<close> of the SharedNote model. The schema declares exactly these paths:
  there is no \<open>shareToken\<close> and no \<open>viewCount\<close> path, and \<open>sharedWith\<close> is required.
\<close>

record shared_note =
  share_id :: oid
  share_note :: oid
  share_owner :: oid
  sharedWith :: oid
  permission :: js_string
  sharedAt :: date
  expiresAt :: "date option"
  share_createdAt :: date
  share_updatedAt :: date

text \<open>
  \<open>reminderSchema\<close> of \<open>models/Reminder.js\<close>. The schema declares exactly these paths:
  there is no \<open>status\<close>, \<open>recurringPattern\<close>, \<open>title\<close> or \<open>notificationMethods\<close>
  path.
\<close>

record reminder =
  reminder_id :: oid
  reminder_note :: oid
  reminder_user :: oid
  reminderDate :: date
  reminder_message :: "js_string option"
  isRecurring :: bool
  recurringType :: "js_string option"
  isCompleted :: bool
  notifiedAt :: "date option"
  reminder_createdAt :: date
  reminder_updatedAt :: date

text \<open>
  The database: one list of documents per collection, in insertion order, and the next
  fresh ObjectId.
\<close>

record db =
  Note_docs :: "note_doc list"
  Tag_docs :: "tag list"
  Folder_docs :: "folder_doc list"
  SharedNote_docs :: "shared_note list"
  Reminder_docs :: "reminder list"
  next_id :: oid

text \<open>What a handler sends when it does not succeed: the status and the message.\<close>

datatype http_error = HttpError nat string

section \<open>The Note model\<close>

definition is_hex :: "js_char \<Rightarrow> bool" where
  "is_hex c \<longleftrightarrow> (0x30 \<le> c \<and> c \<le> 0x39) \<or> (0x41 \<le> c \<and> c \<le> 0x46) \<or> (0x61 \<le> c \<and> c \<le> 0x66)"

text \<open>
  The \<open>match\<close> validator with \<open>/^#([A-Fa-f0-9]{6}|[A-Fa-f0-9]{3})$/\<close>; Mongoose lets the
  empty string pass a \<open>match\<close> validator.
\<close>

definition valid_color :: "js_string \<Rightarrow> bool" where
  "valid_color c \<longleftrightarrow>
     c = [] \<or> (case c of [] \<Rightarrow> False
               | h # ds \<Rightarrow> h = 0x23 \<and> (length ds = 6 \<or> length ds = 3) \<and> list_all is_hex ds)"

definition title_errors :: "js_string \<Rightarrow> string list" where
  "title_errors t =
     (if t = [] then [''Note title is required'']
      else if length t > 200 then [''Title cannot exceed 200 characters'']
      else [])"

definition content_errors :: "js_string \<Rightarrow> string list" where
  "content_errors c =
     (if c = [] then [''Note content is required'']
      else if length c > 50000 then [''Content cannot exceed 50000 characters'']
      else [])"

definition contentType_errors :: "js_string \<Rightarrow> string list" where
  "contentType_errors t =
     (if t = js ''plain'' \<or> t = js ''markdown'' \<or> t = js ''richtext'' then []
      else [''contentType is not a valid enum value''])"

definition color_errors :: "js_string \<Rightarrow> string list" where
  "color_errors c = (if valid_color c then [] else [''Invalid color format''])"

text \<open>The messages of the ValidationError of a note, one per failing path.\<close>

definition note_validation_errors :: "note_doc \<Rightarrow> string list" where
  "note_validation_errors n =
     title_errors (title n) @ content_errors (content n) @
     contentType_errors (contentType n) @ color_errors (color n)"

text \<open>\<open>messages.join('. ')\<close>.\<close>

fun join_messages :: "string list \<Rightarrow> string" where
  "join_messages [] = []"
| "join_messages [m] = m"
| "join_messages (m # ms) = m @ ''. '' @ join_messages ms"

text \<open>
  \<open>noteSchema.pre('save')\<close>: the counts are recomputed when, and only when, the
  document being saved has a modified \<open>content\<close> path.
\<close>

definition pre_save :: "bool \<Rightarrow> note_doc \<Rightarrow> note_doc" where
  "pre_save content_modified n =
     (if content_modified
      then n\<lparr>characterCount := length (content n), wordCount := count_words (content n)\<rparr>
      else n)"

text \<open>
  \<open>Note.create\<close>: the schema setters trim \<open>title\<close> and \<open>content\<close>, the defaults fill the
  paths the caller did not give, validation runs, then the pre-save hook (every given path
  of a new document is modified), then the document is inserted with both timestamps.
\<close>

definition Note_create ::
  "date \<Rightarrow> js_string \<Rightarrow> js_string \<Rightarrow> oid \<Rightarrow> bool \<Rightarrow> bool \<Rightarrow> js_string \<Rightarrow> oid list \<Rightarrow>
   oid option \<Rightarrow> js_string \<Rightarrow> db \<Rightarrow> (string list + note_doc) \<times> db" where
  "Note_create now t c uid pinned fav col tgs fld ctype s =
     (let doc = \<lparr>note_id = next_id s, title = js_trim t, content = js_trim c,
                  contentType = ctype, user = uid, folder = fld, tags = tgs,
                  isPinned = pinned, isArchived = False, isTrashed = False,
                  trashedAt = None, color = col, attachments = [], wordCount = 0,
                  characterCount = 0, note_order = 0, isFavorite = fav,
                  lastViewedAt = None, viewCount = 0, createdAt = now, updatedAt = now\<rparr>
      in if note_validation_errors doc \<noteq> [] then (Inl (note_validation_errors doc), s)
         else (let saved = pre_save True doc
               in (Inr saved, s\<lparr>Note_docs := Note_docs s @ [saved], next_id := next_id s + 1\<rparr>)))"

section \<open>The notes controller: createNote\<close>

record create_body =
  b_title :: "js_string option"
  b_content :: "js_string option"
  b_isPinned :: "bool option"
  b_color :: "js_string option"
  b_tags :: "oid list option"
  b_folder :: "oid option"
  b_contentType :: "js_string option"

text \<open>\<open>Tag.find({ _id: { $in: tags }, user })\<close>.\<close>

definition valid_tags :: "oid \<Rightarrow> oid list \<Rightarrow> db \<Rightarrow> tag list" where
  "valid_tags uid ts s = filter (\<lambda>t. tag_id t \<in> set ts \<and> tag_user t = uid) (Tag_docs s)"

text \<open>\<open>Folder.findOne({ _id: folder, user })\<close>.\<close>

definition find_folder :: "oid \<Rightarrow> oid \<Rightarrow> db \<Rightarrow> folder_doc option" where
  "find_folder uid fid s = find (\<lambda>f. folder_id f = fid \<and> folder_user f = uid) (Folder_docs s)"

text \<open>
  \<open>createNote\<close>. The populated tag and folder summaries of the response are read-only
  decorations and are left out: the response carries the created document.
\<close>

definition createNote :: "date \<Rightarrow> oid \<Rightarrow> create_body \<Rightarrow> db \<Rightarrow> (http_error + note_doc) \<times> db" where
  "createNote now uid b s =
     (if falsy_str (b_title b) \<or> falsy_str (b_content b)
      then (Inl (HttpError 400 ''Please provide title and content for the note''), s)
      else if (case b_tags b of None \<Rightarrow> False
               | Some ts \<Rightarrow> length ts > 0 \<and> length (valid_tags uid ts s) \<noteq> length ts)
      then (Inl (HttpError 400 ''One or more invalid tags''), s)
      else if (case b_folder b of None \<Rightarrow> False | Some fid \<Rightarrow> find_folder uid fid s = None)
      then (Inl (HttpError 400 ''Invalid folder''), s)
      else (case Note_create now (js_trim (the (b_title b))) (js_trim (the (b_content b))) uid
                   (case b_isPinned b of None \<Rightarrow> False | Some p \<Rightarrow> p) False
                   (or_default (b_color b) (js ''#ffffff''))
                   (case b_tags b of None \<Rightarrow> [] | Some ts \<Rightarrow> ts)
                   (b_folder b)
                   (or_default (b_contentType b) (js ''plain'')) s of
              (Inl msgs, s') \<Rightarrow> (Inl (HttpError 400 (join_messages msgs)), s')
            | (Inr n, s') \<Rightarrow> (Inr n, s')))"

section \<open>Numbers of the pagination\<close>

text \<open>
  A JavaScript number is a double. The controllers compute with integers and the
  infinities only, so \<open>Num\<close> carries an integer, which is always one that a double
  represents exactly: \<open>to_double\<close> rounds an integer to the nearest double, ties to the
  even mantissa, and to an infinity beyond the largest double. (\<open>-0\<close> is not told from
  \<open>0\<close>.)
\<close>

function bit_length :: "int \<Rightarrow> nat" where
  "bit_length n = (if n \<le> 0 then 0 else Suc (bit_length (n div 2)))"
  by pat_completeness auto
termination
  by (relation "measure nat") auto

text \<open>A magnitude rounded to 53 significant bits.\<close>

definition round_to_53 :: "int \<Rightarrow> int" where
  "round_to_53 m =
     (if m < 9007199254740992 then m
      else (let e = bit_length m - 53;
                q = m div 2 ^ e;
                r = m mod 2 ^ e;
                h = 2 ^ (e - 1)
            in (if h < r \<or> (r = h \<and> odd q) then q + 1 else q) * 2 ^ e))"

definition inf_of_sign :: "bool \<Rightarrow> js_num" where
  "inf_of_sign positive = (if positive then PosInf else NegInf)"

definition to_double :: "int \<Rightarrow> js_num" where
  "to_double i =
     (if 2 ^ 1024 \<le> round_to_53 \<bar>i\<bar> then inf_of_sign (0 \<le> i)
      else Num (if i < 0 then - round_to_53 \<bar>i\<bar> else round_to_53 \<bar>i\<bar>))"

text \<open>The value of a code unit as a digit of a radix up to 36.\<close>

definition digit_of :: "js_char \<Rightarrow> int option" where
  "digit_of c =
     (if 0x30 \<le> c \<and> c \<le> 0x39 then Some (uint c - 48)
      else if 0x61 \<le> c \<and> c \<le> 0x7A then Some (uint c - 87)
      else if 0x41 \<le> c \<and> c \<le> 0x5A then Some (uint c - 55)
      else None)"

definition is_digit_in :: "int \<Rightarrow> js_char \<Rightarrow> bool" where
  "is_digit_in r c = (case digit_of c of None \<Rightarrow> False | Some d \<Rightarrow> d < r)"

definition digits_value :: "int \<Rightarrow> js_string \<Rightarrow> int" where
  "digits_value r ds =
     foldl (\<lambda>a c. r * a + (case digit_of c of None \<Rightarrow> 0 | Some d \<Rightarrow> d)) 0 ds"

definition has_hex_prefix :: "js_string \<Rightarrow> bool" where
  "has_hex_prefix u =
     (case u of a # b # rest \<Rightarrow> a = 0x30 \<and> (b = 0x78 \<or> b = 0x58) | _ \<Rightarrow> False)"

text \<open>
  \<open>parseInt\<close> on a string: leading whitespace is skipped, one sign is read, then the
  longest run of digits of the radix; with no digit the result is \<open>NaN\<close>, otherwise the
  double nearest to the signed value. \<open>hex_allowed\<close> says that a prefix \<open>0x\<close> switches to
  radix 16, which is so when no radix is given.
\<close>

definition parseInt_with :: "bool \<Rightarrow> js_string \<Rightarrow> js_num" where
  "parseInt_with hex_allowed s =
     (let t = dropWhile is_ws s;
          neg = (case t of [] \<Rightarrow> False | c # cs \<Rightarrow> c = 0x2D);
          u = (case t of [] \<Rightarrow> [] | c # cs \<Rightarrow> if c = 0x2D \<or> c = 0x2B then cs else t);
          hex = (hex_allowed \<and> has_hex_prefix u);
          r = (if hex then 16 else 10);
          ds = takeWhile (is_digit_in r) (if hex then drop 2 u else u)
      in if ds = [] then NaN
         else to_double (if neg then - digits_value r ds else digits_value r ds))"

text \<open>\<open>parseInt(s, 10)\<close>.\<close>

definition parseInt10 :: "js_string \<Rightarrow> js_num" where
  "parseInt10 s = parseInt_with False s"

text \<open>
  \<open>parseInt(v)\<close> on a query parameter that may be absent: \<open>undefined\<close> is read as the
  word, which has no digit.
\<close>

fun parseInt_param :: "js_string option \<Rightarrow> js_num" where
  "parseInt_param None = NaN"
| "parseInt_param (Some s) = parseInt_with True s"

text \<open>\<open>x || d\<close> on a number: \<open>NaN\<close> and 0 are falsy.\<close>

fun num_or :: "js_num \<Rightarrow> js_num \<Rightarrow> js_num" where
  "num_or NaN d = d"
| "num_or (Num n) d = (if n = 0 then d else Num n)"
| "num_or x d = x"

fun js_minus :: "js_num \<Rightarrow> js_num \<Rightarrow> js_num" where
  "js_minus (Num a) (Num b) = to_double (a - b)"
| "js_minus NaN _ = NaN"
| "js_minus _ NaN = NaN"
| "js_minus PosInf PosInf = NaN"
| "js_minus NegInf NegInf = NaN"
| "js_minus PosInf _ = PosInf"
| "js_minus NegInf _ = NegInf"
| "js_minus (Num a) PosInf = NegInf"
| "js_minus (Num a) NegInf = PosInf"

fun js_times :: "js_num \<Rightarrow> js_num \<Rightarrow> js_num" where
  "js_times (Num a) (Num b) = to_double (a * b)"
| "js_times NaN _ = NaN"
| "js_times _ NaN = NaN"
| "js_times PosInf PosInf = PosInf"
| "js_times NegInf NegInf = PosInf"
| "js_times PosInf NegInf = NegInf"
| "js_times NegInf PosInf = NegInf"
| "js_times PosInf (Num b) = (if b = 0 then NaN else inf_of_sign (0 < b))"
| "js_times NegInf (Num b) = (if b = 0 then NaN else inf_of_sign (b < 0))"
| "js_times (Num a) PosInf = (if a = 0 then NaN else inf_of_sign (0 < a))"
| "js_times (Num a) NegInf = (if a = 0 then NaN else inf_of_sign (a < 0))"

text \<open>
  \<open>Math.ceil(total / limitNum)\<close> for a count \<open>n\<close> of documents. (A collection holds
  fewer than \<open>2^53\<close> documents, so the rounding of the quotient does not change its
  ceiling.)
\<close>

fun js_ceil_div :: "nat \<Rightarrow> js_num \<Rightarrow> js_num" where
  "js_ceil_div n (Num l) =
     (if l = 0 then (if n = 0 then NaN else PosInf)
      else Num (- ((- int n) div l)))"
| "js_ceil_div n NaN = NaN"
| "js_ceil_div n PosInf = Num 0"
| "js_ceil_div n NegInf = Num 0"

section \<open>The store's queries\<close>

text \<open>
  The first document that satisfies a filter is replaced (\<open>updateOne\<close>) or removed
  (\<open>deleteOne\<close>); \<open>_id\<close> is the filter of every such call below.
\<close>

fun update_first :: "('a \<Rightarrow> bool) \<Rightarrow> 'a \<Rightarrow> 'a list \<Rightarrow> 'a list" where
  "update_first P y [] = []"
| "update_first P y (x # xs) = (if P x then y # xs else x # update_first P y xs)"

fun delete_first :: "('a \<Rightarrow> bool) \<Rightarrow> 'a list \<Rightarrow> 'a list" where
  "delete_first P [] = []"
| "delete_first P (x # xs) = (if P x then xs else x # delete_first P xs)"

text \<open>
  The values a sort key can take, in the store's comparison order of types: null, then
  numbers, strings, ObjectIds, booleans, dates.
\<close>

datatype bson = BNull | BNum int | BStr js_string | BId oid | BBool bool | BDate date

fun bson_rank :: "bson \<Rightarrow> nat" where
  "bson_rank BNull = 0"
| "bson_rank (BNum _) = 1"
| "bson_rank (BStr _) = 2"
| "bson_rank (BId _) = 3"
| "bson_rank (BBool _) = 4"
| "bson_rank (BDate _) = 5"

text \<open>
  Strings are compared by code point, which is the byte order of their UTF-8 form: among
  UTF-16 code units the surrogates, which encode the code points above \<open>U+FFFF\<close>, come
  after the units from \<open>E000\<close> on.
\<close>

definition cp_rank :: "js_char \<Rightarrow> int" where
  "cp_rank c =
     (if 0xE000 \<le> c then uint c - 0x800 else if 0xD800 \<le> c then uint c + 0x2000 else uint c)"

fun str_less :: "js_string \<Rightarrow> js_string \<Rightarrow> bool" where
  "str_less [] [] = False"
| "str_less [] (y # ys) = True"
| "str_less (x # xs) [] = False"
| "str_less (x # xs) (y # ys) = (cp_rank x < cp_rank y \<or> (x = y \<and> str_less xs ys))"

fun bson_less :: "bson \<Rightarrow> bson \<Rightarrow> bool" where
  "bson_less (BNum a) (BNum b) = (a < b)"
| "bson_less (BStr a) (BStr b) = str_less a b"
| "bson_less (BId a) (BId b) = (a < b)"
| "bson_less (BBool a) (BBool b) = (b \<and> a = False)"
| "bson_less (BDate a) (BDate b) = (a < b)"
| "bson_less a b = (bson_rank a < bson_rank b)"

fun bson_date :: "date option \<Rightarrow> bson" where
  "bson_date None = BNull"
| "bson_date (Some d) = BDate d"

fun bson_id :: "oid option \<Rightarrow> bson" where
  "bson_id None = BNull"
| "bson_id (Some i) = BId i"

text \<open>
  The value of a note at a scalar path of the schema. A name that no note has reads as
  null.
\<close>

definition note_field :: "js_string \<Rightarrow> note_doc \<Rightarrow> bson" where
  "note_field f n =
     (if f = js ''_id'' then BId (note_id n)
      else if f = js ''title'' then BStr (title n)
      else if f = js ''content'' then BStr (content n)
      else if f = js ''contentType'' then BStr (contentType n)
      else if f = js ''user'' then BId (user n)
      else if f = js ''folder'' then bson_id (folder n)
      else if f = js ''isPinned'' then BBool (isPinned n)
      else if f = js ''isArchived'' then BBool (isArchived n)
      else if f = js ''isTrashed'' then BBool (isTrashed n)
      else if f = js ''trashedAt'' then bson_date (trashedAt n)
      else if f = js ''color'' then BStr (color n)
      else if f = js ''wordCount'' then BNum (int (wordCount n))
      else if f = js ''characterCount'' then BNum (int (characterCount n))
      else if f = js ''order'' then BNum (note_order n)
      else if f = js ''isFavorite'' then BBool (isFavorite n)
      else if f = js ''lastViewedAt'' then bson_date (lastViewedAt n)
      else if f = js ''viewCount'' then BNum (int (viewCount n))
      else if f = js ''createdAt'' then BDate (createdAt n)
      else if f = js ''updatedAt'' then BDate (updatedAt n)
      else BNull)"

text \<open>
  The sort keys whose meaning is fixed here: the scalar paths of \<open>noteSchema\<close>, read by
  \<open>note_field\<close>, and the two names \<open>deletedAt\<close> and \<open>archivedAt\<close> that the controllers
  sort by although no note has them, so that they read as null on every note.
\<close>

definition fixed_sort_keys :: "js_string list" where
  "fixed_sort_keys =
     map js [''_id'', ''title'', ''content'', ''contentType'', ''user'', ''folder'', ''isPinned'',
             ''isArchived'', ''isTrashed'', ''trashedAt'', ''color'', ''wordCount'',
             ''characterCount'', ''order'', ''isFavorite'', ''lastViewedAt'', ''viewCount'',
             ''createdAt'', ''updatedAt'', ''deletedAt'', ''archivedAt'']"

text \<open>
  A sort key with its direction (\<open>True\<close> ascending) orders two notes: \<open>field_less\<close> says
  that \<open>a\<close> comes strictly before \<open>b\<close>.
\<close>

definition field_less :: "js_string \<Rightarrow> bool \<Rightarrow> note_doc \<Rightarrow> note_doc \<Rightarrow> bool" where
  "field_less f asc a b =
     (if asc then bson_less (note_field f a) (note_field f b)
      else bson_less (note_field f b) (note_field f a))"

text \<open>
  What the store does with any other sort key (a dotted path, an array path, a name that
  is unknown or ill-formed) is not fixed here. It is a parameter: for a key and a
  direction it answers \<open>None\<close> when the store rejects the sort, and otherwise the strict
  order in which the store puts two notes by that key.
\<close>

type_synonym foreign_sort = "js_string \<Rightarrow> bool \<Rightarrow> (note_doc \<Rightarrow> note_doc \<Rightarrow> bool) option"

definition key_order ::
  "foreign_sort \<Rightarrow> js_string \<times> bool \<Rightarrow> (note_doc \<Rightarrow> note_doc \<Rightarrow> bool) option" where
  "key_order fk k =
     (if fst k \<in> set fixed_sort_keys then Some (field_less (fst k) (snd k))
      else fk (fst k) (snd k))"

text \<open>The orders of a sort specification, or \<open>None\<close> when the store rejects one of its keys.\<close>

fun resolve_sort ::
  "foreign_sort \<Rightarrow> (js_string \<times> bool) list \<Rightarrow> (note_doc \<Rightarrow> note_doc \<Rightarrow> bool) list option" where
  "resolve_sort fk [] = Some []"
| "resolve_sort fk (k # ks) =
     (case key_order fk k of
        None \<Rightarrow> None
      | Some lt \<Rightarrow> (case resolve_sort fk ks of None \<Rightarrow> None | Some lts \<Rightarrow> Some (lt # lts)))"

text \<open>Notes are compared by the first key that separates them.\<close>

fun keys_less :: "(note_doc \<Rightarrow> note_doc \<Rightarrow> bool) list \<Rightarrow> note_doc \<Rightarrow> note_doc \<Rightarrow> bool" where
  "keys_less [] a b = False"
| "keys_less (lt # lts) a b =
     (if lt a b then True else if lt b a then False else keys_less lts a b)"

fun insort_by :: "('a \<Rightarrow> 'a \<Rightarrow> bool) \<Rightarrow> 'a \<Rightarrow> 'a list \<Rightarrow> 'a list" where
  "insort_by le x [] = [x]"
| "insort_by le x (y # ys) = (if le x y then x # y # ys else y # insort_by le x ys)"

text \<open>
  \<open>.sort(spec)\<close>: documents that the specification does not separate keep their stored
  order. (The store's limit on the memory of a sort is not modelled.)
\<close>

definition sort_by_keys ::
  "(note_doc \<Rightarrow> note_doc \<Rightarrow> bool) list \<Rightarrow> note_doc list \<Rightarrow> note_doc list" where
  "sort_by_keys lts ns = foldr (\<lambda>n acc. insort_by (\<lambda>a b. keys_less lts b a = False) n acc) ns []"

text \<open>A sort by keys that are all fixed.\<close>

definition sort_notes :: "(js_string \<times> bool) list \<Rightarrow> note_doc list \<Rightarrow> note_doc list" where
  "sort_notes spec ns = sort_by_keys (map (\<lambda>k. field_less (fst k) (snd k)) spec) ns"

text \<open>
  \<open>.skip(k).limit(l)\<close> as the store runs it. A skip or limit that is no finite number or
  does not fit a signed 64-bit integer is rejected, and so is a negative skip (\<open>None\<close>).
  A limit of 0 is no limit. A negative limit \<open>-n\<close> asks for a single batch of at most
  \<open>n\<close> documents, and a first batch holds at most 101 documents.
\<close>

definition skip_limit :: "js_num \<Rightarrow> js_num \<Rightarrow> 'a list \<Rightarrow> 'a list option" where
  "skip_limit k l xs =
     (case (k, l) of
        (Num k', Num l') \<Rightarrow>
          (if k' < 0 \<or> 2 ^ 63 \<le> k' \<or> 2 ^ 63 \<le> \<bar>l'\<bar> then None
           else Some (if l' = 0 then drop (nat k') xs
                      else if l' < 0 then take (min (nat (- l')) 101) (drop (nat k') xs)
                      else take (nat l') (drop (nat k') xs)))
      | _ \<Rightarrow> None)"

text \<open>
  The regular expression engine is not part of the repository. It is a parameter: given
  the source of a pattern, compiled with the flag \<open>i\<close>, it answers \<open>None\<close> when the
  pattern is rejected as ill-formed, and otherwise the predicate that says whether the
  pattern matches somewhere in a string.
\<close>

type_synonym regex_engine = "js_string \<Rightarrow> (js_string \<Rightarrow> bool) option"

section \<open>The Note model: statics and methods\<close>

text \<open>
  \<open>doc.save()\<close> on a loaded note \<open>old\<close> changed in memory to \<open>new\<close>: nothing is written
  when no path was modified; otherwise the pre-save hook runs, \<open>updatedAt\<close> is set and the
  stored document with this \<open>_id\<close> is replaced.
\<close>

definition Note_save :: "date \<Rightarrow> note_doc \<Rightarrow> note_doc \<Rightarrow> db \<Rightarrow> note_doc \<times> db" where
  "Note_save now old new s =
     (if new = old then (new, s)
      else (let saved = (pre_save (content new \<noteq> content old) new)\<lparr>updatedAt := now\<rparr>
            in (saved, s\<lparr>Note_docs := update_first (\<lambda>m. note_id m = note_id old) saved (Note_docs s)\<rparr>)))"

definition moveToTrash :: "date \<Rightarrow> note_doc \<Rightarrow> db \<Rightarrow> note_doc \<times> db" where
  "moveToTrash now n s = Note_save now n (n\<lparr>isTrashed := True, trashedAt := Some now\<rparr>) s"

definition restore :: "date \<Rightarrow> note_doc \<Rightarrow> db \<Rightarrow> note_doc \<times> db" where
  "restore now n s = Note_save now n (n\<lparr>isTrashed := False, trashedAt := None\<rparr>) s"

definition archive :: "date \<Rightarrow> note_doc \<Rightarrow> db \<Rightarrow> note_doc \<times> db" where
  "archive now n s = Note_save now n (n\<lparr>isArchived := True\<rparr>) s"

definition findTrashed :: "oid \<Rightarrow> db \<Rightarrow> note_doc list" where
  "findTrashed uid s =
     sort_notes [(js ''trashedAt'', False)]
       (filter (\<lambda>n. user n = uid \<and> isTrashed n) (Note_docs s))"

definition findArchived :: "oid \<Rightarrow> db \<Rightarrow> note_doc list" where
  "findArchived uid s =
     sort_notes [(js ''updatedAt'', False)]
       (filter (\<lambda>n. user n = uid \<and> isArchived n \<and> isTrashed n = False) (Note_docs s))"

section \<open>The notes controller: listing and search\<close>

text \<open>
  The query string of \<open>GET /api/notes\<close>. Identifiers are taken well-formed: \<open>q_tag\<close> is an
  ObjectId, \<open>q_folder\<close> is the word \<open>null\<close> or an ObjectId.
\<close>

datatype folder_arg = FolderNull | FolderId oid

fun folder_value :: "folder_arg \<Rightarrow> oid option" where
  "folder_value FolderNull = None"
| "folder_value (FolderId f) = Some f"

record notes_query =
  q_page :: "js_string option"
  q_limit :: "js_string option"
  q_search :: "js_string option"
  q_sortBy :: "js_string option"
  q_sortOrder :: "js_string option"
  q_tag :: "oid option"
  q_folder :: "folder_arg option"
  q_color :: "js_string option"
  q_favorite :: "js_string option"

record notes_page =
  np_count :: nat
  np_total :: nat
  np_page :: js_num
  np_pages :: js_num
  np_notes :: "note_doc list"

fun opt_holds :: "('a \<Rightarrow> bool) \<Rightarrow> 'a option \<Rightarrow> bool" where
  "opt_holds P None = True"
| "opt_holds P (Some x) = P x"

text \<open>
  The filter that \<open>getNotes\<close> builds, for a compiled search predicate \<open>m\<close> (if any): the
  owner and the two lifecycle flags are always part of it.
\<close>

definition getNotes_filter ::
  "oid \<Rightarrow> (js_string \<Rightarrow> bool) option \<Rightarrow> notes_query \<Rightarrow> note_doc \<Rightarrow> bool" where
  "getNotes_filter uid m q n \<longleftrightarrow>
     user n = uid \<and> isTrashed n = False \<and> isArchived n = False \<and>
     opt_holds (\<lambda>p. p (title n) \<or> p (content n)) m \<and>
     opt_holds (\<lambda>t. t \<in> set (tags n)) (q_tag q) \<and>
     opt_holds (\<lambda>f. folder n = folder_value f) (q_folder q) \<and>
     (if truthy_str (q_color q) then color n = the (q_color q) else True) \<and>
     (if q_favorite q = Some (js ''true'') then isFavorite n else True)"

text \<open>
  A property name that is an array index: the decimal form, without leading zeros, of a
  number up to \<open>2^32 - 2\<close>. An object lists such keys before its other keys, in numeric
  order.
\<close>

definition is_array_index :: "js_string \<Rightarrow> bool" where
  "is_array_index k =
     (case k of
        [] \<Rightarrow> False
      | c # cs \<Rightarrow> list_all (is_digit_in 10) k \<and> (cs = [] \<or> c \<noteq> 0x30) \<and>
                  digits_value 10 k \<le> 4294967294)"

text \<open>
  \<open>sortOptions\<close>, as the list of its keys in the order of the object: \<open>isPinned\<close>
  descending, then the requested key. A request to sort by \<open>isPinned\<close> itself overwrites
  the direction of that one key; an assignment to \<open>__proto__\<close> adds no key; a key that is
  an array index is listed before \<open>isPinned\<close>.
\<close>

definition sortOptions :: "notes_query \<Rightarrow> (js_string \<times> bool) list" where
  "sortOptions q =
     (let sortBy = (case q_sortBy q of None \<Rightarrow> js ''updatedAt'' | Some f \<Rightarrow> f);
          asc = (q_sortOrder q = Some (js ''asc''))
      in if sortBy = js ''isPinned'' then [(js ''isPinned'', asc)]
         else if sortBy = js ''__proto__'' then [(js ''isPinned'', False)]
         else if is_array_index sortBy then [(sortBy, asc), (js ''isPinned'', False)]
         else [(js ''isPinned'', False), (sortBy, asc)])"

definition pageNum :: "notes_query \<Rightarrow> js_num" where
  "pageNum q = (case q_page q of None \<Rightarrow> Num 1 | Some p \<Rightarrow> parseInt10 p)"

definition limitNum :: "notes_query \<Rightarrow> js_num" where
  "limitNum q = (case q_limit q of None \<Rightarrow> Num 20 | Some l \<Rightarrow> parseInt10 l)"

text \<open>
  \<open>getNotes\<close>. A search pattern that the engine rejects, a sort key that the store
  rejects and a skip or limit that the store rejects all end in the catch block.
\<close>

definition getNotes ::
  "regex_engine \<Rightarrow> foreign_sort \<Rightarrow> oid \<Rightarrow> notes_query \<Rightarrow> db \<Rightarrow> http_error + notes_page" where
  "getNotes rx fk uid q s =
     (if truthy_str (q_search q) \<and> rx (the (q_search q)) = None
      then Inl (HttpError 500 ''Server error fetching notes'')
      else (case resolve_sort fk (sortOptions q) of
              None \<Rightarrow> Inl (HttpError 500 ''Server error fetching notes'')
            | Some lts \<Rightarrow>
                (let m = (if truthy_str (q_search q) then rx (the (q_search q)) else None);
                     skip = js_times (js_minus (pageNum q) (Num 1)) (limitNum q);
                     matching = filter (getNotes_filter uid m q) (Note_docs s)
                 in case skip_limit skip (limitNum q) (sort_by_keys lts matching) of
                      None \<Rightarrow> Inl (HttpError 500 ''Server error fetching notes'')
                    | Some page \<Rightarrow>
                        Inr \<lparr>np_count = length page, np_total = length matching,
                             np_page = pageNum q,
                             np_pages = js_ceil_div (length matching) (limitNum q),
                             np_notes = page\<rparr>)))"

record search_query =
  sq_q :: "js_string option"
  sq_tag :: "oid option"
  sq_folder :: "folder_arg option"
  sq_color :: "js_string option"

definition searchNotes_filter ::
  "oid \<Rightarrow> (js_string \<Rightarrow> bool) \<Rightarrow> search_query \<Rightarrow> note_doc \<Rightarrow> bool" where
  "searchNotes_filter uid m q n \<longleftrightarrow>
     user n = uid \<and> isTrashed n = False \<and> isArchived n = False \<and>
     (m (title n) \<or> m (content n)) \<and>
     opt_holds (\<lambda>t. t \<in> set (tags n)) (sq_tag q) \<and>
     opt_holds (\<lambda>f. folder n = folder_value f) (sq_folder q) \<and>
     (if truthy_str (sq_color q) then color n = the (sq_color q) else True)"

definition searchNotes :: "regex_engine \<Rightarrow> oid \<Rightarrow> search_query \<Rightarrow> db \<Rightarrow> http_error + note_doc list" where
  "searchNotes rx uid q s =
     (if falsy_str (sq_q q) \<or> length (js_trim (the (sq_q q))) = 0
      then Inl (HttpError 400 ''Please provide a search query'')
      else (case rx (the (sq_q q)) of
              None \<Rightarrow> Inl (HttpError 500 ''Server error searching notes'')
            | Some m \<Rightarrow>
                Inr (sort_notes [(js ''isPinned'', False), (js ''updatedAt'', False)]
                       (filter (searchNotes_filter uid m q) (Note_docs s)))))"

text \<open>
  \<open>getTrashedNotes\<close> and \<open>getArchivedNotes\<close> add a second sort key (\<open>deletedAt\<close>,
  \<open>archivedAt\<close>) that is no path of the schema, so the order of the static stays.
\<close>

definition getTrashedNotes :: "oid \<Rightarrow> db \<Rightarrow> note_doc list" where
  "getTrashedNotes uid s =
     sort_notes [(js ''trashedAt'', False), (js ''deletedAt'', False)]
       (filter (\<lambda>n. user n = uid \<and> isTrashed n) (Note_docs s))"

definition getArchivedNotes :: "oid \<Rightarrow> db \<Rightarrow> note_doc list" where
  "getArchivedNotes uid s =
     sort_notes [(js ''updatedAt'', False), (js ''archivedAt'', False)]
       (filter (\<lambda>n. user n = uid \<and> isArchived n \<and> isTrashed n = False) (Note_docs s))"

section \<open>The notes controller: update, delete, restore, archive\<close>

record update_body =
  u_title :: "js_string option"
  u_content :: "js_string option"
  u_isPinned :: "bool option"
  u_color :: "js_string option"
  u_tags :: "oid list option"
  u_folder :: "folder_arg option"
  u_contentType :: "js_string option"
  u_isFavorite :: "bool option"

fun opt_list :: "('a \<Rightarrow> 'b list) \<Rightarrow> 'a option \<Rightarrow> 'b list" where
  "opt_list f None = []"
| "opt_list f (Some x) = f x"

fun opt_or :: "'a option \<Rightarrow> 'a \<Rightarrow> 'a" where
  "opt_or None d = d"
| "opt_or (Some x) d = x"

text \<open>
  \<open>updateFields\<close> holds a field for every body field that is not \<open>undefined\<close>, with title
  and content trimmed and the folder word \<open>null\<close> turned into null.
\<close>

definition no_update_fields :: "update_body \<Rightarrow> bool" where
  "no_update_fields b \<longleftrightarrow>
     u_title b = None \<and> u_content b = None \<and> u_isPinned b = None \<and> u_color b = None \<and>
     u_tags b = None \<and> u_folder b = None \<and> u_contentType b = None \<and> u_isFavorite b = None"

text \<open>The update validators (\<open>runValidators: true\<close>) check the paths being set.\<close>

definition update_validation_errors :: "update_body \<Rightarrow> string list" where
  "update_validation_errors b =
     opt_list (\<lambda>t. title_errors (js_trim t)) (u_title b) @
     opt_list (\<lambda>c. content_errors (js_trim c)) (u_content b) @
     opt_list contentType_errors (u_contentType b) @
     opt_list color_errors (u_color b)"

text \<open>
  The \<open>$set\<close> that \<open>findByIdAndUpdate\<close> applies to the stored document, with the
  \<open>updatedAt\<close> timestamp. No other path is written: the operation is an update of the
  store, not a \<open>save\<close>, and document middleware does not run for it.
\<close>

definition apply_update :: "date \<Rightarrow> update_body \<Rightarrow> note_doc \<Rightarrow> note_doc" where
  "apply_update now b n =
     n\<lparr>title := opt_or (map_option js_trim (u_title b)) (title n),
       content := opt_or (map_option js_trim (u_content b)) (content n),
       isPinned := opt_or (u_isPinned b) (isPinned n),
       color := opt_or (u_color b) (color n),
       tags := opt_or (u_tags b) (tags n),
       folder := opt_or (map_option folder_value (u_folder b)) (folder n),
       contentType := opt_or (u_contentType b) (contentType n),
       isFavorite := opt_or (u_isFavorite b) (isFavorite n),
       updatedAt := now\<rparr>"

text \<open>\<open>Note.findByIdAndUpdate(noteId, updateFields, { new: true, runValidators: true })\<close>.\<close>

definition Note_findByIdAndUpdate ::
  "date \<Rightarrow> oid \<Rightarrow> update_body \<Rightarrow> db \<Rightarrow> (string list + note_doc option) \<times> db" where
  "Note_findByIdAndUpdate now nid b s =
     (if update_validation_errors b \<noteq> [] then (Inl (update_validation_errors b), s)
      else (case find (\<lambda>m. note_id m = nid) (Note_docs s) of
              None \<Rightarrow> (Inr None, s)
            | Some old \<Rightarrow>
                (Inr (Some (apply_update now b old)),
                 s\<lparr>Note_docs := update_first (\<lambda>m. note_id m = nid) (apply_update now b old)
                                  (Note_docs s)\<rparr>)))"

definition updateNote ::
  "date \<Rightarrow> oid \<Rightarrow> oid \<Rightarrow> update_body \<Rightarrow> db \<Rightarrow> (http_error + note_doc) \<times> db" where
  "updateNote now uid nid b s =
     (case find (\<lambda>n. note_id n = nid \<and> user n = uid \<and> isTrashed n = False) (Note_docs s) of
        None \<Rightarrow>
          (Inl (HttpError 404 ''Note not found or you do not have permission to update it''), s)
      | Some found \<Rightarrow>
          (if (case u_tags b of None \<Rightarrow> False
               | Some ts \<Rightarrow> length ts > 0 \<and> length (valid_tags uid ts s) \<noteq> length ts)
           then (Inl (HttpError 400 ''One or more invalid tags''), s)
           else if (case u_folder b of Some (FolderId fid) \<Rightarrow> find_folder uid fid s = None
                    | _ \<Rightarrow> False)
           then (Inl (HttpError 400 ''Invalid folder''), s)
           else if no_update_fields b
           then (Inl (HttpError 400 ''Please provide at least one field to update''), s)
           else (case Note_findByIdAndUpdate now nid b s of
                   (Inl msgs, s') \<Rightarrow> (Inl (HttpError 400 (join_messages msgs)), s')
                 | (Inr None, s') \<Rightarrow> (Inl (HttpError 500 ''Server error updating note''), s')
                 | (Inr (Some n), s') \<Rightarrow> (Inr n, s'))))"

datatype delete_result = PermanentlyDeleted oid js_string | MovedToTrash note_doc

text \<open>\<open>deleteNote\<close>: the note is looked up by id and owner, trashed or not.\<close>

definition deleteNote ::
  "date \<Rightarrow> oid \<Rightarrow> oid \<Rightarrow> js_string option \<Rightarrow> db \<Rightarrow> (http_error + delete_result) \<times> db" where
  "deleteNote now uid nid permanent s =
     (case find (\<lambda>n. note_id n = nid \<and> user n = uid) (Note_docs s) of
        None \<Rightarrow>
          (Inl (HttpError 404 ''Note not found or you do not have permission to delete it''), s)
      | Some found \<Rightarrow>
          (if permanent = Some (js ''true'')
           then (Inr (PermanentlyDeleted (note_id found) (title found)),
                 s\<lparr>Note_docs := delete_first (\<lambda>m. note_id m = nid) (Note_docs s)\<rparr>)
           else (case moveToTrash now found s of (n, s') \<Rightarrow> (Inr (MovedToTrash n), s'))))"

definition restoreNote :: "date \<Rightarrow> oid \<Rightarrow> oid \<Rightarrow> db \<Rightarrow> (http_error + note_doc) \<times> db" where
  "restoreNote now uid nid s =
     (case find (\<lambda>n. note_id n = nid \<and> user n = uid \<and> isTrashed n) (Note_docs s) of
        None \<Rightarrow> (Inl (HttpError 404 ''Note not found in trash''), s)
      | Some found \<Rightarrow> (case restore now found s of (n, s') \<Rightarrow> (Inr n, s')))"

definition archiveNote :: "date \<Rightarrow> oid \<Rightarrow> oid \<Rightarrow> db \<Rightarrow> (http_error + note_doc) \<times> db" where
  "archiveNote now uid nid s =
     (case find (\<lambda>n. note_id n = nid \<and> user n = uid \<and> isTrashed n = False) (Note_docs s) of
        None \<Rightarrow> (Inl (HttpError 404 ''Note not found''), s)
      | Some found \<Rightarrow> (case archive now found s of (n, s') \<Rightarrow> (Inr n, s')))"

section \<open>The SharedNote model and the share controller\<close>

text \<open>What a model operation throws: a ValidationError with its messages, or the store's
  duplicate-key error of a unique index.\<close>

datatype model_error = ValidationError "string list" | DuplicateKeyError

text \<open>
  The object handed to \<open>SharedNote.create\<close>. The controller passes \<open>shareToken\<close> for a
  link share; it is no path of the schema.
\<close>

record share_input =
  si_note :: oid
  si_owner :: oid
  si_sharedWith :: "oid option"
  si_permission :: js_string
  si_shareToken :: "js_string option"
  si_expiresAt :: "date option"

definition permission_errors :: "js_string \<Rightarrow> string list" where
  "permission_errors p =
     (if p = js ''read'' \<or> p = js ''edit'' then []
      else [''permission is not a valid enum value''])"

text \<open>
  \<open>SharedNote.create\<close>: under the schema's strict mode a key that is no path of the
  schema (\<open>shareToken\<close>) is dropped; \<open>sharedWith\<close> is required, so null fails validation;
  the unique index on (note, sharedWith) rejects a second share of the pair.
\<close>

definition SharedNote_create ::
  "date \<Rightarrow> share_input \<Rightarrow> db \<Rightarrow> (model_error + shared_note) \<times> db" where
  "SharedNote_create now i s =
     (case si_sharedWith i of
        None \<Rightarrow> (Inl (ValidationError (''Path sharedWith is required.'' #
                                          permission_errors (si_permission i))), s)
      | Some w \<Rightarrow>
          (if permission_errors (si_permission i) \<noteq> []
           then (Inl (ValidationError (permission_errors (si_permission i))), s)
           else if find (\<lambda>sh. share_note sh = si_note i \<and> sharedWith sh = w)
                     (SharedNote_docs s) \<noteq> None
           then (Inl DuplicateKeyError, s)
           else (let sh = \<lparr>share_id = next_id s, share_note = si_note i,
                            share_owner = si_owner i, sharedWith = w,
                            permission = si_permission i, sharedAt = now,
                            expiresAt = si_expiresAt i, share_createdAt = now,
                            share_updatedAt = now\<rparr>
                 in (Inr sh, s\<lparr>SharedNote_docs := SharedNote_docs s @ [sh],
                               next_id := next_id s + 1\<rparr>))))"

text \<open>\<open>buf.toString('hex')\<close>: two lower-case hexadecimal digits per byte.\<close>

definition hex_digit :: "nat \<Rightarrow> js_char" where
  "hex_digit d = (if d < 10 then of_nat (48 + d) else of_nat (87 + d))"

definition to_hex :: "8 word list \<Rightarrow> js_string" where
  "to_hex bs = concat (map (\<lambda>b. [hex_digit (unat b div 16), hex_digit (unat b mod 16)]) bs)"

record link_body =
  lb_noteId :: oid
  lb_expiresAt :: "date option"

record link_response =
  lr_shareLink :: js_string
  lr_share :: shared_note

text \<open>
  \<open>generateShareLink\<close>. \<open>frontend_url\<close> is \<open>process.env.FRONTEND_URL\<close>, \<open>rnd\<close> the 32 bytes
  that \<open>crypto.randomBytes(32)\<close> returns. Whatever \<open>SharedNote.create\<close> throws is caught
  and answered with the 500 response.
\<close>

definition generateShareLink ::
  "js_string option \<Rightarrow> 8 word list \<Rightarrow> date \<Rightarrow> oid \<Rightarrow> link_body \<Rightarrow> db \<Rightarrow>
   (http_error + link_response) \<times> db" where
  "generateShareLink frontend_url rnd now uid b s =
     (case find (\<lambda>n. note_id n = lb_noteId b \<and> user n = uid \<and> isTrashed n = False)
             (Note_docs s) of
        None \<Rightarrow> (Inl (HttpError 404 ''Note not found''), s)
      | Some found \<Rightarrow>
          (let shareToken = to_hex rnd
           in case SharedNote_create now
                     \<lparr>si_note = lb_noteId b, si_owner = uid, si_sharedWith = None,
                      si_permission = js ''read'', si_shareToken = Some shareToken,
                      si_expiresAt = lb_expiresAt b\<rparr> s of
                (Inl e, s') \<Rightarrow>
                  (Inl (HttpError 500 ''Server error while generating share link''), s')
              | (Inr share, s') \<Rightarrow>
                  (Inr \<lparr>lr_shareLink = or_default frontend_url (js ''http://localhost:5173'') @
                                       js ''/shared/'' @ shareToken,
                        lr_share = share\<rparr>, s')))"

text \<open>
  \<open>SharedNote.findOne({ shareToken: token })\<close>. \<open>shareToken\<close> is no path of the schema and
  no stored share has the field. With Mongoose's \<open>strictQuery\<close> off the filter goes to the
  store as it is and matches no share; with \<open>strictQuery\<close> on the unknown key is removed
  from the filter, which then matches every share, and the first one is returned. The
  setting is the library's (its default changed between versions), so it is a parameter.
\<close>

definition SharedNote_findOne_shareToken :: "bool \<Rightarrow> js_string \<Rightarrow> db \<Rightarrow> shared_note option" where
  "SharedNote_findOne_shareToken strictQuery token s =
     (if strictQuery then (case SharedNote_docs s of [] \<Rightarrow> None | sh # rest \<Rightarrow> Some sh)
      else None)"

text \<open>
  A document in memory: the schema's paths, and the properties that code has assigned to
  the object under names that are no path of the schema. Only the paths are loaded from
  the store and only the paths are written by \<open>save\<close>; reading a property that was never
  assigned gives \<open>undefined\<close>.
\<close>

datatype js_prop = PStr js_string | PNum js_num

record 'a loaded =
  paths :: 'a
  props :: "(string \<times> js_prop) list"

definition load :: "'a \<Rightarrow> 'a loaded" where
  "load d = \<lparr>paths = d, props = []\<rparr>"

definition get_prop :: "string \<Rightarrow> 'a loaded \<Rightarrow> js_prop option" where
  "get_prop name d = map_of (props d) name"

definition set_prop :: "string \<Rightarrow> js_prop \<Rightarrow> 'a loaded \<Rightarrow> 'a loaded" where
  "set_prop name v d = d\<lparr>props := (name, v) # props d\<rparr>"

text \<open>\<open>x + 1\<close> for a property value: \<open>undefined + 1\<close> is \<open>NaN\<close>, a string is concatenated.\<close>

datatype js_sum = SumNum js_num | SumStr js_string

fun plus_one :: "js_prop option \<Rightarrow> js_sum" where
  "plus_one None = SumNum NaN"
| "plus_one (Some (PNum (Num n))) = SumNum (Num (n + 1))"
| "plus_one (Some (PNum x)) = SumNum x"
| "plus_one (Some (PStr t)) = SumStr (t @ js ''1'')"

fun prop_of_sum :: "js_sum \<Rightarrow> js_prop" where
  "prop_of_sum (SumNum x) = PNum x"
| "prop_of_sum (SumStr t) = PStr t"

text \<open>
  \<open>share.save()\<close>: the share is written when a path of the schema differs from the stored
  one, and then \<open>updatedAt\<close> is set; properties of the object are not written.
\<close>

definition SharedNote_save :: "date \<Rightarrow> shared_note \<Rightarrow> shared_note loaded \<Rightarrow> db \<Rightarrow> shared_note loaded \<times> db" where
  "SharedNote_save now old d s =
     (if paths d = old then (d, s)
      else (d\<lparr>paths := (paths d)\<lparr>share_updatedAt := now\<rparr>\<rparr>,
            s\<lparr>SharedNote_docs :=
                update_first (\<lambda>sh. share_id sh = share_id old) ((paths d)\<lparr>share_updatedAt := now\<rparr>)
                  (SharedNote_docs s)\<rparr>))"

record shared_view =
  sv_note :: "note_doc option"
  sv_owner :: oid
  sv_permission :: js_string
  sv_viewCount :: "js_prop option"

definition share_expired :: "date \<Rightarrow> shared_note \<Rightarrow> bool" where
  "share_expired now sh = (case expiresAt sh of None \<Rightarrow> False | Some e \<Rightarrow> e < now)"

text \<open>
  \<open>getSharedNoteByToken\<close>. \<open>share.viewCount += 1\<close> reads and assigns a property of the
  object, since \<open>viewCount\<close> is no path of \<open>sharedNoteSchema\<close>.
\<close>

definition getSharedNoteByToken ::
  "bool \<Rightarrow> date \<Rightarrow> js_string \<Rightarrow> db \<Rightarrow> (http_error + shared_view) \<times> db" where
  "getSharedNoteByToken strictQuery now token s =
     (case SharedNote_findOne_shareToken strictQuery token s of
        None \<Rightarrow> (Inl (HttpError 404 ''Shared note not found''), s)
      | Some sh \<Rightarrow>
          (if share_expired now sh
           then (Inl (HttpError 403 ''This share link has expired''), s)
           else (let share = load sh;
                     share1 = set_prop ''viewCount''
                                (prop_of_sum (plus_one (get_prop ''viewCount'' share))) share
                 in case SharedNote_save now sh share1 s of
                      (share2, s') \<Rightarrow>
                        (Inr \<lparr>sv_note = find (\<lambda>n. note_id n = share_note sh) (Note_docs s),
                              sv_owner = share_owner sh,
                              sv_permission = permission sh,
                              sv_viewCount = get_prop ''viewCount'' share2\<rparr>, s'))))"

section \<open>The Reminder model and the reminder controller\<close>

text \<open>Dates are milliseconds since the epoch; the server's time zone is taken to be UTC.\<close>

definition ms_per_day :: int where
  "ms_per_day = 86400000"

text \<open>The day number of a civil date (month 1 to 12), and the civil date of a day number.\<close>

definition days_from_civil :: "int \<Rightarrow> int \<Rightarrow> int \<Rightarrow> int" where
  "days_from_civil y m d =
     (let y' = (if m \<le> 2 then y - 1 else y);
          era = y' div 400;
          yoe = y' - era * 400;
          doy = (153 * (if m > 2 then m - 3 else m + 9) + 2) div 5 + d - 1;
          doe = yoe * 365 + yoe div 4 - yoe div 100 + doy
      in era * 146097 + doe - 719468)"

definition civil_from_days :: "int \<Rightarrow> int \<times> int \<times> int" where
  "civil_from_days z =
     (let z' = z + 719468;
          era = z' div 146097;
          doe = z' - era * 146097;
          yoe = (doe - doe div 1460 + doe div 36524 - doe div 146096) div 365;
          doy = doe - (365 * yoe + yoe div 4 - yoe div 100);
          mp = (5 * doy + 2) div 153;
          d = doy - (153 * mp + 2) div 5 + 1;
          m = (if mp < 10 then mp + 3 else mp - 9);
          y = yoe + era * 400
      in (if m \<le> 2 then y + 1 else y, m, d))"

text \<open>
  \<open>MakeDate(MakeDay(year, month, day), time in day)\<close> for a month counted from 0 that may
  lie outside 0 to 11, and a day that may lie outside the month.
\<close>

definition make_date :: "int \<Rightarrow> int \<Rightarrow> int \<Rightarrow> int \<Rightarrow> date" where
  "make_date y m0 d t =
     (days_from_civil (y + m0 div 12) (m0 mod 12 + 1) 1 + d - 1) * ms_per_day + t"

text \<open>\<open>calculateNextDate\<close>, with \<open>setDate\<close>, \<open>setMonth\<close> and \<open>setFullYear\<close> written out.\<close>

definition calculateNextDate :: "date \<Rightarrow> js_string \<Rightarrow> date option" where
  "calculateNextDate currentDate pattern =
     (case civil_from_days (currentDate div ms_per_day) of
        (y, m, d) \<Rightarrow>
          (let t = currentDate mod ms_per_day
           in if pattern = js ''daily'' then Some (make_date y (m - 1) (d + 1) t)
              else if pattern = js ''weekly'' then Some (make_date y (m - 1) (d + 7) t)
              else if pattern = js ''biweekly'' then Some (make_date y (m - 1) (d + 14) t)
              else if pattern = js ''monthly'' then Some (make_date y (m - 1 + 1) d t)
              else if pattern = js ''yearly'' then Some (make_date (y + 1) (m - 1) d t)
              else None))"

text \<open>
  The object handed to \<open>Reminder.create\<close>. Of its keys, \<open>note\<close>, \<open>user\<close>, \<open>reminderDate\<close> and
  \<open>isRecurring\<close> are paths of \<open>reminderSchema\<close>; \<open>title\<close>, \<open>recurringPattern\<close> and
  \<open>notificationMethods\<close> are not.
\<close>

record reminder_input =
  ri_note :: "oid option"
  ri_user :: oid
  ri_title :: "js_prop option"
  ri_reminderDate :: date
  ri_isRecurring :: bool
  ri_recurringPattern :: "js_prop option"
  ri_notificationMethods :: "js_prop option"

text \<open>
  \<open>Reminder.create\<close>: strict mode drops the keys that are no path; \<open>note\<close> is required;
  the other paths take their defaults.
\<close>

definition Reminder_create ::
  "date \<Rightarrow> reminder_input \<Rightarrow> db \<Rightarrow> (model_error + reminder) \<times> db" where
  "Reminder_create now i s =
     (case ri_note i of
        None \<Rightarrow> (Inl (ValidationError [''Path note is required.'']), s)
      | Some nid \<Rightarrow>
          (let r = \<lparr>reminder_id = next_id s, reminder_note = nid, reminder_user = ri_user i,
                    reminderDate = ri_reminderDate i, reminder_message = None,
                    isRecurring = ri_isRecurring i, recurringType = None,
                    isCompleted = False, notifiedAt = None,
                    reminder_createdAt = now, reminder_updatedAt = now\<rparr>
           in (Inr r, s\<lparr>Reminder_docs := Reminder_docs s @ [r], next_id := next_id s + 1\<rparr>)))"

definition Reminder_save :: "date \<Rightarrow> reminder \<Rightarrow> reminder loaded \<Rightarrow> db \<Rightarrow> reminder loaded \<times> db" where
  "Reminder_save now old d s =
     (if paths d = old then (d, s)
      else (d\<lparr>paths := (paths d)\<lparr>reminder_updatedAt := now\<rparr>\<rparr>,
            s\<lparr>Reminder_docs :=
                update_first (\<lambda>r. reminder_id r = reminder_id old)
                  ((paths d)\<lparr>reminder_updatedAt := now\<rparr>) (Reminder_docs s)\<rparr>))"

text \<open>A property value as the condition of an \<open>if\<close>, and as the pattern of the switch.\<close>

fun truthy_prop :: "js_prop option \<Rightarrow> bool" where
  "truthy_prop None = False"
| "truthy_prop (Some (PStr t)) = (t \<noteq> [])"
| "truthy_prop (Some (PNum (Num n))) = (n \<noteq> 0)"
| "truthy_prop (Some (PNum NaN)) = False"
| "truthy_prop (Some (PNum x)) = True"

fun pattern_of :: "js_prop option \<Rightarrow> js_string" where
  "pattern_of (Some (PStr t)) = t"
| "pattern_of other = []"

text \<open>
  \<open>completeReminder\<close>. \<open>reminder.status = 'completed'\<close> assigns a property of the object
  and \<open>reminder.recurringPattern\<close>, \<open>reminder.title\<close> and \<open>reminder.notificationMethods\<close>
  read properties of the object: none of the four names is a path of \<open>reminderSchema\<close>.
  An error of \<open>Reminder.create\<close> is caught and answered with the 500 response. The
  response carries the paths of the reminder.
\<close>

definition completeReminder ::
  "date \<Rightarrow> oid \<Rightarrow> oid \<Rightarrow> db \<Rightarrow> (http_error + reminder) \<times> db" where
  "completeReminder now uid rid s =
     (case find (\<lambda>r. reminder_id r = rid \<and> reminder_user r = uid) (Reminder_docs s) of
        None \<Rightarrow> (Inl (HttpError 404 ''Reminder not found''), s)
      | Some found \<Rightarrow>
          (let r0 = set_prop ''status'' (PStr (js ''completed'')) (load found)
           in case Reminder_save now found r0 s of
                (r1, s1) \<Rightarrow>
                  (if isRecurring (paths r1) \<and> truthy_prop (get_prop ''recurringPattern'' r1)
                   then (case calculateNextDate (reminderDate (paths r1))
                                 (pattern_of (get_prop ''recurringPattern'' r1)) of
                           None \<Rightarrow> (Inr (paths r1), s1)
                         | Some nextDate \<Rightarrow>
                             (case Reminder_create now
                                     \<lparr>ri_note = Some (reminder_note (paths r1)), ri_user = uid,
                                      ri_title = get_prop ''title'' r1,
                                      ri_reminderDate = nextDate, ri_isRecurring = True,
                                      ri_recurringPattern = get_prop ''recurringPattern'' r1,
                                      ri_notificationMethods =
                                        get_prop ''notificationMethods'' r1\<rparr> s1 of
                                (Inl e, s2) \<Rightarrow>
                                  (Inl (HttpError 500 ''Server error while completing reminder''), s2)
                              | (Inr created, s2) \<Rightarrow> (Inr (paths r1), s2)))
                   else (Inr (paths r1), s1))))"

section \<open>The Tag model and the tag controller\<close>

definition tag_name_errors :: "js_string option \<Rightarrow> string list" where
  "tag_name_errors n =
     (case n of
        None \<Rightarrow> [''Tag name is required'']
      | Some t \<Rightarrow>
          (if js_trim t = [] then [''Tag name is required'']
           else if length (js_trim t) > 30 then [''Tag name cannot exceed 30 characters'']
           else []))"

text \<open>
  \<open>Tag.create\<close>: the name is trimmed by the schema's setter and validated; the unique
  index on (name, user) compares the stored names exactly, case included.
\<close>

definition Tag_create ::
  "date \<Rightarrow> js_string option \<Rightarrow> js_string \<Rightarrow> oid \<Rightarrow> db \<Rightarrow> (model_error + tag) \<times> db" where
  "Tag_create now n col uid s =
     (if tag_name_errors n @ color_errors col \<noteq> []
      then (Inl (ValidationError (tag_name_errors n @ color_errors col)), s)
      else if find (\<lambda>t. tag_name t = js_trim (the n) \<and> tag_user t = uid) (Tag_docs s) \<noteq> None
      then (Inl DuplicateKeyError, s)
      else (let t = \<lparr>tag_id = next_id s, tag_name = js_trim (the n), tag_color = col,
                      tag_user = uid, tag_createdAt = now, tag_updatedAt = now\<rparr>
            in (Inr t, s\<lparr>Tag_docs := Tag_docs s @ [t], next_id := next_id s + 1\<rparr>)))"

record tag_body =
  tb_name :: "js_string option"
  tb_color :: "js_string option"

text \<open>A value inside a template literal: \<open>undefined\<close> prints as the word.\<close>

fun template_str :: "js_string option \<Rightarrow> js_string" where
  "template_str None = js ''undefined''"
| "template_str (Some t) = t"

text \<open>
  \<open>createTag\<close>. The name goes into the pattern as it is, between \<open>^\<close> and \<open>$\<close>; a
  pattern that the engine rejects and an error of \<open>Tag.create\<close> both end in the catch
  block, which answers with the 500 response.
\<close>

definition createTag ::
  "regex_engine \<Rightarrow> date \<Rightarrow> oid \<Rightarrow> tag_body \<Rightarrow> db \<Rightarrow> (http_error + tag) \<times> db" where
  "createTag rx now uid b s =
     (case rx (js ''^'' @ template_str (tb_name b) @ js ''$'') of
        None \<Rightarrow> (Inl (HttpError 500 ''Server error while creating tag''), s)
      | Some m \<Rightarrow>
          (if find (\<lambda>t. tag_user t = uid \<and> m (tag_name t)) (Tag_docs s) \<noteq> None
           then (Inl (HttpError 400 ''Tag with this name already exists''), s)
           else (case Tag_create now (tb_name b) (or_default (tb_color b) (js ''#3b82f6'')) uid s of
                   (Inl e, s') \<Rightarrow> (Inl (HttpError 500 ''Server error while creating tag''), s')
                 | (Inr t, s') \<Rightarrow> (Inr t, s'))))"

section \<open>Other views of notes\<close>

text \<open>
  \<open>getNotesByTag\<close> of the tag controller and \<open>getNotesInFolder\<close> of the folder controller:
  the notes of the owner that hold the tag, or lie in the folder, and are neither trashed
  nor archived, pinned notes first and then the latest update first. The page and the
  limit are \<open>parseInt(...) || 1\<close> and \<open>parseInt(...) || 20\<close>.
\<close>

record paged_query =
  pq_page :: "js_string option"
  pq_limit :: "js_string option"

record pagination =
  pg_page :: js_num
  pg_limit :: js_num
  pg_total :: nat
  pg_pages :: js_num

record tag_notes =
  tn_tag :: tag
  tn_notes :: "note_doc list"
  tn_pagination :: pagination

record folder_notes =
  fn_folder :: folder_doc
  fn_notes :: "note_doc list"
  fn_pagination :: pagination

definition paged_notes ::
  "paged_query \<Rightarrow> note_doc list \<Rightarrow> (note_doc list \<times> pagination) option" where
  "paged_notes pq matching =
     (let page = num_or (parseInt_param (pq_page pq)) (Num 1);
          limit = num_or (parseInt_param (pq_limit pq)) (Num 20);
          skip = js_times (js_minus page (Num 1)) limit
      in case skip_limit skip limit
                (sort_notes [(js ''isPinned'', False), (js ''updatedAt'', False)] matching) of
           None \<Rightarrow> None
         | Some notes \<Rightarrow>
             Some (notes, \<lparr>pg_page = page, pg_limit = limit, pg_total = length matching,
                            pg_pages = js_ceil_div (length matching) limit\<rparr>))"

definition getNotesByTag :: "oid \<Rightarrow> oid \<Rightarrow> paged_query \<Rightarrow> db \<Rightarrow> http_error + tag_notes" where
  "getNotesByTag uid tid pq s =
     (case find (\<lambda>t. tag_id t = tid \<and> tag_user t = uid) (Tag_docs s) of
        None \<Rightarrow> Inl (HttpError 404 ''Tag not found'')
      | Some t \<Rightarrow>
          (case paged_notes pq
                  (filter (\<lambda>n. user n = uid \<and> tag_id t \<in> set (tags n) \<and>
                                isTrashed n = False \<and> isArchived n = False) (Note_docs s)) of
             None \<Rightarrow> Inl (HttpError 500 ''Server error while fetching notes'')
           | Some (notes, pg) \<Rightarrow> Inr \<lparr>tn_tag = t, tn_notes = notes, tn_pagination = pg\<rparr>))"

definition getNotesInFolder :: "oid \<Rightarrow> oid \<Rightarrow> paged_query \<Rightarrow> db \<Rightarrow> http_error + folder_notes" where
  "getNotesInFolder uid fid pq s =
     (case find_folder uid fid s of
        None \<Rightarrow> Inl (HttpError 404 ''Folder not found'')
      | Some f \<Rightarrow>
          (case paged_notes pq
                  (filter (\<lambda>n. user n = uid \<and> folder n = Some (folder_id f) \<and>
                                isTrashed n = False \<and> isArchived n = False) (Note_docs s)) of
             None \<Rightarrow> Inl (HttpError 500 ''Server error while fetching notes'')
           | Some (notes, pg) \<Rightarrow> Inr \<lparr>fn_folder = f, fn_notes = notes, fn_pagination = pg\<rparr>))"

text \<open>
  \<open>exportData\<close> of the profile controller, for an authenticated caller, whose user
  document exists; the part of the export on the user's profile is left out, and
  \<open>exportedAt\<close> is kept as the time, not as its ISO string. The export holds every note
  of the owner, found by \<open>Note.find({ user })\<close> with no condition on the lifecycle flags,
  with the names of its tags and of its folder, and the owner's folders and tags.
\<close>

record export_note =
  en_title :: js_string
  en_content :: js_string
  en_color :: js_string
  en_isPinned :: bool
  en_tags :: "js_string list"
  en_folder :: "js_string option"
  en_createdAt :: date
  en_updatedAt :: date

record export_folder =
  ef_name :: js_string
  ef_icon :: js_string
  ef_color :: js_string

record export_tag =
  et_name :: js_string
  et_color :: js_string

record export_data =
  ex_exportedAt :: date
  ex_notes :: "export_note list"
  ex_folders :: "export_folder list"
  ex_tags :: "export_tag list"

text \<open>
  One exported note. The tags are populated: an id with no tag document is dropped.
  \<open>note.folder?.name || null\<close> is null for a missing folder and for an empty name.
\<close>

definition export_note_of :: "db \<Rightarrow> note_doc \<Rightarrow> export_note" where
  "export_note_of s n =
     \<lparr>en_title = title n, en_content = content n, en_color = color n, en_isPinned = isPinned n,
      en_tags = map tag_name
                  (List.map_filter (\<lambda>i. find (\<lambda>t. tag_id t = i) (Tag_docs s)) (tags n)),
      en_folder = (case folder n of
                     None \<Rightarrow> None
                   | Some i \<Rightarrow>
                       (case find (\<lambda>f. folder_id f = i) (Folder_docs s) of
                          None \<Rightarrow> None
                        | Some f \<Rightarrow> if folder_name f = [] then None else Some (folder_name f))),
      en_createdAt = createdAt n, en_updatedAt = updatedAt n\<rparr>"

definition exportData :: "date \<Rightarrow> oid \<Rightarrow> db \<Rightarrow> export_data" where
  "exportData now uid s =
     \<lparr>ex_exportedAt = now,
      ex_notes = map (export_note_of s) (filter (\<lambda>n. user n = uid) (Note_docs s)),
      ex_folders = map (\<lambda>f. \<lparr>ef_name = folder_name f, ef_icon = folder_icon f,
                               ef_color = folder_color f\<rparr>)
                     (filter (\<lambda>f. folder_user f = uid) (Folder_docs s)),
      ex_tags = map (\<lambda>t. \<lparr>et_name = tag_name t, et_color = tag_color t\<rparr>)
                  (filter (\<lambda>t. tag_user t = uid) (Tag_docs s))\<rparr>"

text \<open>
  \<open>getNotesSharedByMe\<close> of the share controller, without the populated recipient: every
  share of the owner, the latest first, each with the title, color and creation time of
  its note, whatever the lifecycle flags of the note.
\<close>

record note_summary =
  ns_id :: oid
  ns_title :: js_string
  ns_color :: js_string
  ns_createdAt :: date

record shared_by_me =
  sbm_share :: shared_note
  sbm_note :: "note_summary option"

definition summary_of :: "note_doc \<Rightarrow> note_summary" where
  "summary_of n = \<lparr>ns_id = note_id n, ns_title = title n, ns_color = color n,
                   ns_createdAt = createdAt n\<rparr>"

definition sort_shares :: "shared_note list \<Rightarrow> shared_note list" where
  "sort_shares shs =
     foldr (\<lambda>x acc. insort_by (\<lambda>a b. share_createdAt b \<le> share_createdAt a) x acc) shs []"

definition getNotesSharedByMe :: "oid \<Rightarrow> db \<Rightarrow> shared_by_me list" where
  "getNotesSharedByMe uid s =
     map (\<lambda>sh. \<lparr>sbm_share = sh,
                 sbm_note = map_option summary_of
                              (find (\<lambda>n. note_id n = share_note sh) (Note_docs s))\<rparr>)
       (sort_shares (filter (\<lambda>sh. share_owner sh = uid) (SharedNote_docs s)))"

section \<open>Example data\<close>

definition empty_db :: db where
  "empty_db = \<lparr>Note_docs = [], Tag_docs = [], Folder_docs = [], SharedNote_docs = [],
               Reminder_docs = [], next_id = 1\<rparr>"

definition shopping_body :: create_body where
  "shopping_body = \<lparr>b_title = Some (js ''Shopping''), b_content = Some (js '' milk  eggs bread ''),
                    b_isPinned = None, b_color = None, b_tags = None, b_folder = None,
                    b_contentType = None\<rparr>"

text \<open>The note that \<open>shopping_body\<close> creates, and the states of its lifecycle.\<close>

definition shopping_note :: note_doc where
  "shopping_note =
     \<lparr>note_id = 1, title = js ''Shopping'', content = js ''milk  eggs bread'',
      contentType = js ''plain'', user = 7, folder = None, tags = [],
      isPinned = False, isArchived = False, isTrashed = False,
      trashedAt = None, color = js ''#ffffff'', attachments = [], wordCount = 3,
      characterCount = 16, note_order = 0, isFavorite = False,
      lastViewedAt = None, viewCount = 0, createdAt = 1000, updatedAt = 1000\<rparr>"

definition db_of_notes :: "note_doc list \<Rightarrow> db" where
  "db_of_notes ns = \<lparr>Note_docs = ns, Tag_docs = [], Folder_docs = [], SharedNote_docs = [],
                     Reminder_docs = [], next_id = 2\<rparr>"

definition archived_note :: note_doc where
  "archived_note = shopping_note\<lparr>isArchived := True, updatedAt := 2000\<rparr>"

definition trashed_note :: note_doc where
  "trashed_note = archived_note\<lparr>isTrashed := True, trashedAt := Some 3000, updatedAt := 3000\<rparr>"

definition retrashed_note :: note_doc where
  "retrashed_note = trashed_note\<lparr>trashedAt := Some 5000, updatedAt := 5000\<rparr>"

definition restored_note :: note_doc where
  "restored_note = trashed_note\<lparr>isTrashed := False, trashedAt := None, updatedAt := 4000\<rparr>"

definition all_query :: notes_query where
  "all_query = \<lparr>q_page = None, q_limit = None, q_search = None, q_sortBy = None,
                 q_sortOrder = None, q_tag = None, q_folder = None, q_color = None,
                 q_favorite = None\<rparr>"

definition milk_search :: search_query where
  "milk_search = \<lparr>sq_q = Some (js ''milk''), sq_tag = None, sq_folder = None, sq_color = None\<rparr>"

text \<open>An engine for the examples: every pattern is accepted and matches every string.\<close>

definition const_engine :: regex_engine where
  "const_engine p = Some (\<lambda>s. True)"

definition new_content_body :: update_body where
  "new_content_body = \<lparr>u_title = None, u_content = Some (js ''a b c d e''), u_isPinned = None,
                      u_color = None, u_tags = None, u_folder = None, u_contentType = None,
                      u_isFavorite = None\<rparr>"

text \<open>A share of note 1 by its owner 7 with user 8, without expiry, as \<open>shareNote\<close> stores it.\<close>

definition direct_share :: shared_note where
  "direct_share =
     \<lparr>share_id = 2, share_note = 1, share_owner = 7, sharedWith = 8, permission = js ''read'',
      sharedAt = 1500, expiresAt = None, share_createdAt = 1500, share_updatedAt = 1500\<rparr>"

definition share_db :: db where
  "share_db = \<lparr>Note_docs = [shopping_note], Tag_docs = [], Folder_docs = [],
               SharedNote_docs = [direct_share], Reminder_docs = [], next_id = 3\<rparr>"

definition link_request :: link_body where
  "link_request = \<lparr>lb_noteId = 1, lb_expiresAt = None\<rparr>"

text \<open>A recurring reminder on note 1, due at 2024-01-31T10:00:00Z, with the daily type.\<close>

definition daily_reminder :: reminder where
  "daily_reminder =
     \<lparr>reminder_id = 2, reminder_note = 1, reminder_user = 7, reminderDate = 1706695200000,
      reminder_message = None, isRecurring = True, recurringType = Some (js ''daily''),
      isCompleted = False, notifiedAt = None, reminder_createdAt = 1500,
      reminder_updatedAt = 1500\<rparr>"

definition reminder_db :: db where
  "reminder_db = \<lparr>Note_docs = [shopping_note], Tag_docs = [], Folder_docs = [],
                  SharedNote_docs = [], Reminder_docs = [daily_reminder], next_id = 3\<rparr>"

text \<open>
  A store for the views: a trashed note and a live note of user 7, both with tag 3 and in
  folder 4, and the share of the trashed note with user 8.
\<close>

definition work_tag :: tag where
  "work_tag = \<lparr>tag_id = 3, tag_name = js ''work'', tag_color = js ''#3b82f6'', tag_user = 7,
               tag_createdAt = 500, tag_updatedAt = 500\<rparr>"

definition work_folder :: folder_doc where
  "work_folder = \<lparr>folder_id = 4, folder_name = js ''Lists'', folder_icon = js ''folder'',
                  folder_color = js ''#6366f1'', folder_user = 7, folder_parent = None,
                  folder_order = 0, folder_createdAt = 600, folder_updatedAt = 600\<rparr>"

definition filed_trashed :: note_doc where
  "filed_trashed = trashed_note\<lparr>folder := Some 4, tags := [3]\<rparr>"

definition filed_live :: note_doc where
  "filed_live = shopping_note\<lparr>note_id := 2, folder := Some 4, tags := [3]\<rparr>"

definition views_db :: db where
  "views_db = \<lparr>Note_docs = [filed_trashed, filed_live], Tag_docs = [work_tag],
               Folder_docs = [work_folder], SharedNote_docs = [direct_share],
               Reminder_docs = [], next_id = 5\<rparr>"

definition first_page :: paged_query where
  "first_page = \<lparr>pq_page = None, pq_limit = None\<rparr>"

text \<open>A store for the examples that rejects every sort key whose meaning is not fixed.\<close>

definition strict_store :: foreign_sort where
  "strict_store k asc = None"

text \<open>Two tags whose names differ by the case of one letter.\<close>

definition paren_tag :: tag where
  "paren_tag = \<lparr>tag_id = 1, tag_name = js ''(a)'', tag_color = js ''#3b82f6'', tag_user = 7,
                tag_createdAt = 1000, tag_updatedAt = 1000\<rparr>"

definition upper_paren_tag :: tag where
  "upper_paren_tag = \<lparr>tag_id = 2, tag_name = js ''(A)'', tag_color = js ''#3b82f6'', tag_user = 7,
                      tag_createdAt = 2000, tag_updatedAt = 2000\<rparr>"

definition db_of_tags :: "tag list \<Rightarrow> oid \<Rightarrow> db" where
  "db_of_tags ts k = \<lparr>Note_docs = [], Tag_docs = ts, Folder_docs = [], SharedNote_docs = [],
                      Reminder_docs = [], next_id = k\<rparr>"

definition upper_paren_body :: tag_body where
  "upper_paren_body = \<lparr>tb_name = Some (js ''(A)''), tb_color = None\<rparr>"

text \<open>
  An engine for the examples. On a pattern \<open>^body$\<close> whose body is made of ASCII letters,
  digits, spaces and balanced parentheses it is the matcher of the pattern under the flag
  \<open>i\<close>: the parentheses group, so the string must equal the body without them, up to
  the case of letters. It rejects every other pattern.
\<close>

definition is_plain :: "js_char \<Rightarrow> bool" where
  "is_plain c \<longleftrightarrow> (0x30 \<le> c \<and> c \<le> 0x39) \<or> (0x41 \<le> c \<and> c \<le> 0x5A) \<or>
                 (0x61 \<le> c \<and> c \<le> 0x7A) \<or> c = 0x20"

definition to_lower :: "js_char \<Rightarrow> js_char" where
  "to_lower c = (if 0x41 \<le> c \<and> c \<le> 0x5A then c + 0x20 else c)"

fun balanced :: "nat \<Rightarrow> js_string \<Rightarrow> bool" where
  "balanced k [] = (k = 0)"
| "balanced k (c # cs) =
     (if c = 0x28 then balanced (Suc k) cs
      else if c = 0x29 then (case k of 0 \<Rightarrow> False | Suc j \<Rightarrow> balanced j cs)
      else balanced k cs)"

definition group_engine :: regex_engine where
  "group_engine p =
     (case p of
        [] \<Rightarrow> None
      | c # cs \<Rightarrow>
          (if c = 0x5E \<and> cs \<noteq> [] \<and> last cs = 0x24 \<and>
              list_all (\<lambda>x. is_plain x \<or> x = 0x28 \<or> x = 0x29) (butlast cs) \<and>
              balanced 0 (butlast cs)
           then Some (\<lambda>t. map to_lower t = map to_lower (filter is_plain (butlast cs)))
           else None))"

section \<open>Word and character counts\<close>

lemma js_trim_idem: "js_trim (js_trim s) = js_trim s"
proof -
  have a: "dropWhile is_ws (dropWhile is_ws xs) = dropWhile is_ws xs" for xs
    by (simp add: dropWhile_idem)
  have b: "dropWhile is_ws (rev (dropWhile is_ws (rev ys))) = rev (dropWhile is_ws (rev ys))"
    if "ys = [] \<or> \<not> is_ws (hd ys)" for ys
    using that
  proof (induction ys rule: rev_induct)
    case Nil
    then show ?case by simp
  next
    case (snoc x xs)
    show ?case
    proof (cases "is_ws x")
      case True
      with snoc show ?thesis
        by (cases xs) auto
    next
      case False
      with snoc.prems show ?thesis
        by (cases xs) auto
    qed
  qed
  have c: "dropWhile is_ws s = [] \<or> \<not> is_ws (hd (dropWhile is_ws s))"
    by (metis hd_dropWhile)
  show ?thesis
    unfolding js_trim_def rev_rev_ident
    by (simp add: b [OF c] a)
qed

lemma ws_fields_dropWhile:
  "filter (\<lambda>w. w \<noteq> []) (ws_fields (dropWhile is_ws s)) = filter (\<lambda>w. w \<noteq> []) (ws_fields s)"
  by (induction s) auto

lemma split_ws_fields:
  "filter (\<lambda>w. w \<noteq> []) (split_ws cur s) =
   filter (\<lambda>w. w \<noteq> []) (case ws_fields s of [] \<Rightarrow> [rev cur] | w # ws \<Rightarrow> (rev cur @ w) # ws)"
proof (induction cur s rule: split_ws.induct)
  case (1 cur)
  then show ?case by simp
next
  case (2 cur c cs)
  show ?case
  proof (cases "is_ws c")
    case True
    have "filter (\<lambda>w. w \<noteq> []) (split_ws [] (dropWhile is_ws cs)) =
          filter (\<lambda>w. w \<noteq> []) (ws_fields (dropWhile is_ws cs))"
      using "2.IH"(1) [OF True] by (cases "ws_fields (dropWhile is_ws cs)") auto
    then show ?thesis
      using True by (simp add: ws_fields_dropWhile)
  next
    case False
    then show ?thesis
      using "2.IH"(2) [OF False] by (cases "ws_fields cs") auto
  qed
qed

lemma split_ws_tokens: "filter (\<lambda>w. w \<noteq> []) (js_split_ws s) = ws_tokens s"
  using split_ws_fields [of "[]" s]
  by (cases "ws_fields s") (auto simp: js_split_ws_def ws_tokens_def)

lemma count_words_tokens: "count_words c = length (ws_tokens (js_trim c))"
  by (simp add: count_words_def split_ws_tokens)

text \<open>
  C1. A note created through \<open>createNote\<close> from a body whose content is \<open>C\<close> is stored
  with the content \<open>C.trim()\<close>; its \<open>characterCount\<close> is the length of that stored content
  and its \<open>wordCount\<close> is the number of non-empty whitespace-separated tokens of
  \<open>C.trim()\<close>. The returned note is the one persisted.
\<close>

theorem createNote_counts:
  assumes "createNote now uid b s = (Inr n, s')"
  shows "\<exists>C. b_content b = Some C \<and> content n = js_trim C \<and>
             characterCount n = length (content n) \<and>
             wordCount n = length (ws_tokens (js_trim C)) \<and>
             Note_docs s' = Note_docs s @ [n]"
proof -
  from assms obtain C where C: "b_content b = Some C"
    by (cases "b_content b") (auto simp: createNote_def)
  from assms C have
    "content n = js_trim C \<and> characterCount n = length (content n) \<and>
     wordCount n = count_words (js_trim C) \<and> Note_docs s' = Note_docs s @ [n]"
    by (auto simp: createNote_def Note_create_def Let_def pre_save_def js_trim_idem
             split: if_splits option.splits)
  then show ?thesis
    using C by (auto simp: count_words_tokens js_trim_idem)
qed

lemma shopping_created:
  "\<exists>n s'. createNote 1000 7 shopping_body empty_db = (Inr n, s')"
  by (simp add: createNote_def Note_create_def shopping_body_def empty_db_def Let_def
      note_validation_errors_def title_errors_def content_errors_def contentType_errors_def
      color_errors_def valid_color_def is_hex_def js_def js_trim_def is_ws_def)

theorem createNote_counts_witness:
  "\<exists>n s'. createNote 1000 7 shopping_body empty_db = (Inr n, s') \<and>
          content n = js ''milk  eggs bread'' \<and> characterCount n = 16 \<and> wordCount n = 3"
proof -
  obtain n s' where h: "createNote 1000 7 shopping_body empty_db = (Inr n, s')"
    using shopping_created by blast
  from createNote_counts [OF h] have
    "content n = js_trim (js '' milk  eggs bread '')" and
    "characterCount n = length (content n)" and
    "wordCount n = length (ws_tokens (js_trim (js '' milk  eggs bread '')))"
    by (auto simp: shopping_body_def)
  then have "content n = js ''milk  eggs bread'' \<and> characterCount n = 16 \<and> wordCount n = 3"
    by (simp add: js_def js_trim_def is_ws_def ws_tokens_def)
  with h show ?thesis by blast
qed

section \<open>The list views and the lifecycle flags\<close>


lemma find_SomeD: "find P xs = Some x \<Longrightarrow> P x \<and> x \<in> set xs"
  by (induction xs) (auto split: if_splits)

lemma set_insort_by: "set (insort_by lt x xs) = insert x (set xs)"
  by (induction xs) auto

lemma set_sort_by_keys: "set (sort_by_keys lts ns) = set ns"
  unfolding sort_by_keys_def by (induction ns) (auto simp: set_insort_by)

lemma set_sort_notes: "set (sort_notes spec ns) = set ns"
  by (simp add: sort_notes_def set_sort_by_keys)

lemma set_sort_shares: "set (sort_shares shs) = set shs"
  unfolding sort_shares_def by (induction shs) (auto simp: set_insort_by)

lemma skip_limit_subset: "skip_limit k l xs = Some ys \<Longrightarrow> set ys \<subseteq> set xs"
  by (auto simp: skip_limit_def split: js_num.splits if_splits dest: in_set_takeD in_set_dropD)

lemma paged_notes_subset: "paged_notes pq xs = Some (ys, pg) \<Longrightarrow> set ys \<subseteq> set xs"
  using skip_limit_subset
  by (fastforce simp: paged_notes_def Let_def set_sort_notes split: option.splits)

lemma getNotes_members:
  assumes "getNotes rx fk uid q s = Inr pg" and "n \<in> set (np_notes pg)"
  shows "n \<in> set (Note_docs s) \<and> user n = uid \<and> isTrashed n = False \<and> isArchived n = False"
proof -
  from assms(1) obtain m lts ys where
    ys: "skip_limit (js_times (js_minus (pageNum q) (Num 1)) (limitNum q)) (limitNum q)
           (sort_by_keys lts (filter (getNotes_filter uid m q) (Note_docs s))) = Some ys"
    and pg: "np_notes pg = ys"
    by (auto simp: getNotes_def Let_def split: if_splits option.splits)
  from skip_limit_subset [OF ys] assms(2) pg
  have "n \<in> set (filter (getNotes_filter uid m q) (Note_docs s))"
    by (auto simp: set_sort_by_keys)
  then show ?thesis
    by (auto simp: getNotes_filter_def)
qed

lemma searchNotes_members:
  assumes "searchNotes rx uid q s = Inr ns" and "n \<in> set ns"
  shows "n \<in> set (Note_docs s) \<and> user n = uid \<and> isTrashed n = False \<and> isArchived n = False"
  using assms
  by (auto simp: searchNotes_def set_sort_notes searchNotes_filter_def
           split: if_splits option.splits)

lemma getNotesByTag_members:
  assumes "getNotesByTag uid tid pq s = Inr r" and "n \<in> set (tn_notes r)"
  shows "n \<in> set (Note_docs s) \<and> user n = uid \<and> tid \<in> set (tags n) \<and>
         isTrashed n = False \<and> isArchived n = False"
proof -
  from assms(1) obtain t pg where
    t: "find (\<lambda>t. tag_id t = tid \<and> tag_user t = uid) (Tag_docs s) = Some t"
    and p: "paged_notes pq (filter (\<lambda>n. user n = uid \<and> tag_id t \<in> set (tags n) \<and>
              isTrashed n = False \<and> isArchived n = False) (Note_docs s)) = Some (tn_notes r, pg)"
    by (auto simp: getNotesByTag_def split: option.splits)
  from find_SomeD [OF t] have "tag_id t = tid"
    by simp
  with paged_notes_subset [OF p] assms(2) show ?thesis
    by auto
qed

lemma getNotesInFolder_members:
  assumes "getNotesInFolder uid fid pq s = Inr r" and "n \<in> set (fn_notes r)"
  shows "n \<in> set (Note_docs s) \<and> user n = uid \<and> folder n = Some fid \<and>
         isTrashed n = False \<and> isArchived n = False"
proof -
  from assms(1) obtain f pg where
    f: "find_folder uid fid s = Some f"
    and p: "paged_notes pq (filter (\<lambda>n. user n = uid \<and> folder n = Some (folder_id f) \<and>
              isTrashed n = False \<and> isArchived n = False) (Note_docs s)) = Some (fn_notes r, pg)"
    by (auto simp: getNotesInFolder_def split: option.splits)
  from f have "folder_id f = fid"
    by (auto simp: find_folder_def dest: find_SomeD)
  with paged_notes_subset [OF p] assms(2) show ?thesis
    by auto
qed

lemma set_getTrashedNotes:
  "set (getTrashedNotes uid s) = {n \<in> set (Note_docs s). user n = uid \<and> isTrashed n}"
  by (auto simp: getTrashedNotes_def set_sort_notes)

lemma set_getArchivedNotes:
  "set (getArchivedNotes uid s) =
     {n \<in> set (Note_docs s). user n = uid \<and> isArchived n \<and> isTrashed n = False}"
  by (auto simp: getArchivedNotes_def set_sort_notes)

lemma exportData_members:
  "n \<in> set (Note_docs s) \<Longrightarrow> user n = uid \<Longrightarrow>
   export_note_of s n \<in> set (ex_notes (exportData now uid s))"
  by (simp add: exportData_def)

lemma getNotesSharedByMe_members:
  assumes "sh \<in> set (SharedNote_docs s)" and "share_owner sh = uid"
    and "find (\<lambda>n. note_id n = share_note sh) (Note_docs s) = Some n"
  shows "\<lparr>sbm_share = sh, sbm_note = Some (summary_of n)\<rparr> \<in> set (getNotesSharedByMe uid s)"
  using assms by (force simp: getNotesSharedByMe_def set_sort_shares)

lemma resolve_sort_fixed:
  "(\<forall>k \<in> set spec. fst k \<in> set fixed_sort_keys) \<Longrightarrow>
   resolve_sort fk spec = Some (map (\<lambda>k. field_less (fst k) (snd k)) spec)"
  by (induction spec) (auto simp: key_order_def)

lemma fixed_isPinned: "js ''isPinned'' \<in> set fixed_sort_keys"
  by (simp add: fixed_sort_keys_def)

lemma fixed_updatedAt: "js ''updatedAt'' \<in> set fixed_sort_keys"
  by (simp add: fixed_sort_keys_def)

lemma sortOptions_fixed:
  assumes "case q_sortBy q of None \<Rightarrow> True | Some k \<Rightarrow> k \<in> set fixed_sort_keys"
  shows "\<forall>k \<in> set (sortOptions q). fst k \<in> set fixed_sort_keys"
  using assms fixed_isPinned fixed_updatedAt
  by (auto simp: sortOptions_def Let_def split: option.splits)

lemma to_double_0: "to_double 0 = Num 0"
  by (simp add: to_double_def round_to_53_def)

lemma first_skip: "js_times (js_minus (Num 1) (Num 1)) (Num 20) = Num 0"
  by (simp add: to_double_0)

lemma skip_limit_first: "skip_limit (Num 0) (Num 20) xs = Some (take 20 xs)"
  by (simp add: skip_limit_def)

lemma getNotes_defaults:
  assumes "q_page q = None" and "q_limit q = None" and "q_search q = None"
    and "case q_sortBy q of None \<Rightarrow> True | Some k \<Rightarrow> k \<in> set fixed_sort_keys"
  shows "getNotes rx fk uid q s =
        Inr \<lparr>np_count = length (take 20 (sort_notes (sortOptions q)
                                   (filter (getNotes_filter uid None q) (Note_docs s)))),
             np_total = length (filter (getNotes_filter uid None q) (Note_docs s)),
             np_page = Num 1,
             np_pages = js_ceil_div (length (filter (getNotes_filter uid None q) (Note_docs s)))
                          (Num 20),
             np_notes = take 20 (sort_notes (sortOptions q)
                                   (filter (getNotes_filter uid None q) (Note_docs s)))\<rparr>"
proof -
  from resolve_sort_fixed [OF sortOptions_fixed [OF assms(4)]]
  have r: "resolve_sort fk (sortOptions q) =
             Some (map (\<lambda>k. field_less (fst k) (snd k)) (sortOptions q))" .
  from assms(1,2) have p: "pageNum q = Num 1" "limitNum q = Num 20"
    by (simp_all add: pageNum_def limitNum_def)
  show ?thesis
    by (simp add: getNotes_def assms(3) r p first_skip skip_limit_first sort_notes_def Let_def
        del: js_minus.simps js_times.simps)
qed

lemma sort_notes_single: "sort_notes spec [n] = [n]"
  by (simp add: sort_notes_def sort_by_keys_def)

lemma paged_notes_first:
  "paged_notes first_page [n] =
     Some ([n], \<lparr>pg_page = Num 1, pg_limit = Num 20, pg_total = 1, pg_pages = Num 1\<rparr>)"
  by (simp add: paged_notes_def first_page_def first_skip skip_limit_first sort_notes_single
      Let_def del: js_minus.simps js_times.simps)

lemmas example_notes =
  shopping_note_def archived_note_def trashed_note_def retrashed_note_def restored_note_def

lemmas filed_notes = filed_trashed_def filed_live_def example_notes

lemma all_query_fields:
  "q_page all_query = None" "q_limit all_query = None" "q_search all_query = None"
  "q_sortBy all_query = None"
  by (simp_all add: all_query_def)

lemma getNotes_views_db:
  "getNotes rx fk 7 all_query views_db =
     Inr \<lparr>np_count = 1, np_total = 1, np_page = Num 1, np_pages = Num 1, np_notes = [filed_live]\<rparr>"
proof -
  have f: "filter (getNotes_filter 7 None all_query) (Note_docs views_db) = [filed_live]"
    by (simp add: views_db_def getNotes_filter_def all_query_def filed_notes)
  show ?thesis
    by (simp add: getNotes_defaults all_query_fields f sort_notes_single)
qed

lemma searchNotes_views_db:
  "searchNotes const_engine 7 milk_search views_db = Inr [filed_live]"
  by (simp add: searchNotes_def milk_search_def views_db_def searchNotes_filter_def
      const_engine_def sort_notes_single filed_notes js_def js_trim_def is_ws_def)

lemma getNotesByTag_views_db:
  "getNotesByTag 7 3 first_page views_db =
     Inr \<lparr>tn_tag = work_tag, tn_notes = [filed_live],
          tn_pagination = \<lparr>pg_page = Num 1, pg_limit = Num 20, pg_total = 1, pg_pages = Num 1\<rparr>\<rparr>"
proof -
  have "filter (\<lambda>n. user n = 7 \<and> 3 \<in> set (tags n) \<and> isTrashed n = False \<and> isArchived n = False)
          (Note_docs views_db) = [filed_live]"
    by (simp add: views_db_def filed_notes)
  moreover have "find (\<lambda>t. tag_id t = 3 \<and> tag_user t = 7) (Tag_docs views_db) = Some work_tag"
    by (simp add: views_db_def work_tag_def)
  moreover have "tag_id work_tag = 3"
    by (simp add: work_tag_def)
  ultimately show ?thesis
    by (simp add: getNotesByTag_def paged_notes_first)
qed

lemma getNotesInFolder_views_db:
  "getNotesInFolder 7 4 first_page views_db =
     Inr \<lparr>fn_folder = work_folder, fn_notes = [filed_live],
          fn_pagination = \<lparr>pg_page = Num 1, pg_limit = Num 20, pg_total = 1, pg_pages = Num 1\<rparr>\<rparr>"
proof -
  have "filter (\<lambda>n. user n = 7 \<and> folder n = Some 4 \<and> isTrashed n = False \<and> isArchived n = False)
          (Note_docs views_db) = [filed_live]"
    by (simp add: views_db_def filed_notes)
  moreover have "find_folder 7 4 views_db = Some work_folder"
    by (simp add: find_folder_def views_db_def work_folder_def)
  moreover have "folder_id work_folder = 4"
    by (simp add: work_folder_def)
  ultimately show ?thesis
    by (simp add: getNotesInFolder_def paged_notes_first)
qed

text \<open>
  C3, as the code has it. Whatever the owner, the parameters, the search engine and the
  store's treatment of foreign sort keys: a page of \<open>getNotes\<close>, a result of
  \<open>searchNotes\<close>, and the notes that \<open>getNotesByTag\<close> and \<open>getNotesInFolder\<close> list hold no
  trashed and no archived note; the archive view holds no trashed note; the trash view
  holds exactly the owner's trashed notes. The trash view is not the only place where a
  trashed note appears: \<open>exportData\<close> exports every note of the owner and
  \<open>getNotesSharedByMe\<close> lists every share of the owner with the summary of its note,
  whatever the lifecycle flags of the note.
\<close>

theorem list_views_lifecycle:
  "(\<forall>pg. getNotes rx fk uid q s = Inr pg \<longrightarrow>
      (\<forall>n \<in> set (np_notes pg). isTrashed n = False \<and> isArchived n = False)) \<and>
   (\<forall>ns. searchNotes rx uid sq s = Inr ns \<longrightarrow>
      (\<forall>n \<in> set ns. isTrashed n = False \<and> isArchived n = False)) \<and>
   (\<forall>r. getNotesByTag uid tid pq s = Inr r \<longrightarrow>
      (\<forall>n \<in> set (tn_notes r). isTrashed n = False \<and> isArchived n = False)) \<and>
   (\<forall>r. getNotesInFolder uid fid fq s = Inr r \<longrightarrow>
      (\<forall>n \<in> set (fn_notes r). isTrashed n = False \<and> isArchived n = False)) \<and>
   (\<forall>n \<in> set (getArchivedNotes uid s). isTrashed n = False) \<and>
   set (getTrashedNotes uid s) = {n \<in> set (Note_docs s). user n = uid \<and> isTrashed n} \<and>
   (\<forall>n \<in> set (Note_docs s). user n = uid \<longrightarrow>
      export_note_of s n \<in> set (ex_notes (exportData now uid s))) \<and>
   (\<forall>sh \<in> set (SharedNote_docs s). \<forall>n.
      share_owner sh = uid \<and> find (\<lambda>n. note_id n = share_note sh) (Note_docs s) = Some n \<longrightarrow>
      \<lparr>sbm_share = sh, sbm_note = Some (summary_of n)\<rparr> \<in> set (getNotesSharedByMe uid s))"
proof (intro conjI allI impI ballI)
  fix pg n
  assume "getNotes rx fk uid q s = Inr pg" and "n \<in> set (np_notes pg)"
  from getNotes_members [OF this] show "isTrashed n = False" and "isArchived n = False"
    by simp_all
next
  fix ns n
  assume "searchNotes rx uid sq s = Inr ns" and "n \<in> set ns"
  from searchNotes_members [OF this] show "isTrashed n = False" and "isArchived n = False"
    by simp_all
next
  fix r n
  assume "getNotesByTag uid tid pq s = Inr r" and "n \<in> set (tn_notes r)"
  from getNotesByTag_members [OF this] show "isTrashed n = False" and "isArchived n = False"
    by simp_all
next
  fix r n
  assume "getNotesInFolder uid fid fq s = Inr r" and "n \<in> set (fn_notes r)"
  from getNotesInFolder_members [OF this] show "isTrashed n = False" and "isArchived n = False"
    by simp_all
next
  fix n
  assume "n \<in> set (getArchivedNotes uid s)"
  then show "isTrashed n = False"
    by (simp add: set_getArchivedNotes)
next
  show "set (getTrashedNotes uid s) = {n \<in> set (Note_docs s). user n = uid \<and> isTrashed n}"
    by (rule set_getTrashedNotes)
next
  fix n
  assume "n \<in> set (Note_docs s)" and "user n = uid"
  then show "export_note_of s n \<in> set (ex_notes (exportData now uid s))"
    by (rule exportData_members)
next
  fix sh n
  assume "sh \<in> set (SharedNote_docs s)"
    and "share_owner sh = uid \<and> find (\<lambda>n. note_id n = share_note sh) (Note_docs s) = Some n"
  then show "\<lparr>sbm_share = sh, sbm_note = Some (summary_of n)\<rparr> \<in> set (getNotesSharedByMe uid s)"
    by (simp add: getNotesSharedByMe_members)
qed

theorem list_views_lifecycle_witness:
  "getNotes const_engine strict_store 7 all_query views_db =
     Inr \<lparr>np_count = 1, np_total = 1, np_page = Num 1, np_pages = Num 1, np_notes = [filed_live]\<rparr> \<and>
   searchNotes const_engine 7 milk_search views_db = Inr [filed_live] \<and>
   getNotesByTag 7 3 first_page views_db =
     Inr \<lparr>tn_tag = work_tag, tn_notes = [filed_live],
          tn_pagination = \<lparr>pg_page = Num 1, pg_limit = Num 20, pg_total = 1, pg_pages = Num 1\<rparr>\<rparr> \<and>
   getNotesInFolder 7 4 first_page views_db =
     Inr \<lparr>fn_folder = work_folder, fn_notes = [filed_live],
          fn_pagination = \<lparr>pg_page = Num 1, pg_limit = Num 20, pg_total = 1, pg_pages = Num 1\<rparr>\<rparr> \<and>
   isTrashed filed_live = False \<and> isArchived filed_live = False \<and>
   isTrashed filed_trashed \<and> user filed_trashed = 7 \<and>
   set (getTrashedNotes 7 views_db) = {filed_trashed} \<and>
   export_note_of views_db filed_trashed \<in> set (ex_notes (exportData 9000 7 views_db)) \<and>
   \<lparr>sbm_share = direct_share, sbm_note = Some (summary_of filed_trashed)\<rparr>
     \<in> set (getNotesSharedByMe 7 views_db)"
proof -
  note t = list_views_lifecycle [where rx = const_engine and fk = strict_store and uid = 7
      and q = all_query and s = views_db and sq = milk_search and tid = 3 and pq = first_page
      and fid = 4 and fq = first_page and now = 9000]
  have g: "getNotes const_engine strict_store 7 all_query views_db =
     Inr \<lparr>np_count = 1, np_total = 1, np_page = Num 1, np_pages = Num 1, np_notes = [filed_live]\<rparr>"
    by (rule getNotes_views_db)
  from t g have "isTrashed filed_live = False \<and> isArchived filed_live = False"
    by simp
  moreover have f: "isTrashed filed_trashed \<and> user filed_trashed = 7"
    by (simp add: filed_notes)
  moreover from t have "set (getTrashedNotes 7 views_db) = {filed_trashed}"
    by (auto simp: views_db_def filed_notes)
  moreover from t f have "export_note_of views_db filed_trashed \<in> set (ex_notes (exportData 9000 7 views_db))"
    by (simp add: views_db_def)
  moreover have "find (\<lambda>n. note_id n = share_note direct_share) (Note_docs views_db) = Some filed_trashed"
    by (simp add: views_db_def direct_share_def filed_notes)
  with t have "\<lparr>sbm_share = direct_share, sbm_note = Some (summary_of filed_trashed)\<rparr>
     \<in> set (getNotesSharedByMe 7 views_db)"
    by (simp add: views_db_def direct_share_def)
  ultimately show ?thesis
    using g searchNotes_views_db getNotesByTag_views_db getNotesInFolder_views_db by simp
qed

text \<open>
  A trashed note outside the trash view: the export of user 7 holds the trashed note 1,
  and the list of the shares of user 7 shows its title.
\<close>

theorem trashed_outside_trash_counterexample:
  "isTrashed filed_trashed \<and>
   ex_notes (exportData 9000 7 views_db) =
     [\<lparr>en_title = js ''Shopping'', en_content = js ''milk  eggs bread'', en_color = js ''#ffffff'',
       en_isPinned = False, en_tags = [js ''work''], en_folder = Some (js ''Lists''),
       en_createdAt = 1000, en_updatedAt = 3000\<rparr>,
      \<lparr>en_title = js ''Shopping'', en_content = js ''milk  eggs bread'', en_color = js ''#ffffff'',
       en_isPinned = False, en_tags = [js ''work''], en_folder = Some (js ''Lists''),
       en_createdAt = 1000, en_updatedAt = 1000\<rparr>] \<and>
   getNotesSharedByMe 7 views_db =
     [\<lparr>sbm_share = direct_share,
       sbm_note = Some \<lparr>ns_id = 1, ns_title = js ''Shopping'', ns_color = js ''#ffffff'',
                         ns_createdAt = 1000\<rparr>\<rparr>]"
  by (simp add: exportData_def export_note_of_def getNotesSharedByMe_def sort_shares_def
      summary_of_def views_db_def work_tag_def work_folder_def direct_share_def filed_notes
      List.map_filter_def js_def)


section \<open>Soft delete and restore\<close>

lemma same_id_same_note:
  "distinct (map note_id ns) \<Longrightarrow> a \<in> set ns \<Longrightarrow> b \<in> set ns \<Longrightarrow> note_id a = note_id b \<Longrightarrow> a = b"
  by (meson distinct_map inj_onD)

lemma update_first_map:
  assumes "distinct (map note_id ns)" and "n \<in> set ns" and "note_id n = nid"
  shows "update_first (\<lambda>m. note_id m = nid) y ns =
         map (\<lambda>m. if note_id m = nid then y else m) ns"
  using assms
proof (induction ns)
  case Nil
  then show ?case by simp
next
  case (Cons x xs)
  show ?case
  proof (cases "note_id x = nid")
    case True
    with Cons.prems have "\<forall>m \<in> set xs. note_id m \<noteq> nid"
      by (auto simp: image_iff)
    then have "map (\<lambda>m. if note_id m = nid then y else m) xs = xs"
      by (simp add: map_idI)
    with True show ?thesis by simp
  next
    case False
    with Cons.prems have "n \<in> set xs" and "distinct (map note_id xs)"
      by auto
    with Cons.IH Cons.prems(3) False show ?thesis by simp
  qed
qed

lemma map_same_note:
  assumes "distinct (map note_id ns)" and "n \<in> set ns"
  shows "map (\<lambda>m. if note_id m = note_id n then n else m) ns = ns"
proof (rule map_idI)
  fix m
  assume "m \<in> set ns"
  then show "(if note_id m = note_id n then n else m) = m"
    using same_id_same_note [OF assms(1) _ assms(2), of m] by auto
qed

text \<open>
  C4, as the code has it. A soft delete of a note that is already trashed and owned by the
  caller succeeds, keeps \<open>isTrashed\<close> and every other field of the note and leaves every
  other note alone, but it is not a no-op: \<open>trashedAt\<close> becomes the time of the call, and
  with it the store-managed \<open>updatedAt\<close>. (\<open>_id\<close> is unique in the store.)
\<close>

theorem deleteNote_already_trashed:
  assumes "distinct (map note_id (Note_docs s))"
    and "find (\<lambda>n. note_id n = nid \<and> user n = uid) (Note_docs s) = Some n"
    and "isTrashed n"
    and "permanent \<noteq> Some (js ''true'')"
  shows "deleteNote now uid nid permanent s =
           (Inr (MovedToTrash (n\<lparr>trashedAt := Some now,
                                  updatedAt := (if trashedAt n = Some now then updatedAt n else now)\<rparr>)),
            s\<lparr>Note_docs :=
                map (\<lambda>m. if note_id m = nid
                          then n\<lparr>trashedAt := Some now,
                                 updatedAt := (if trashedAt n = Some now then updatedAt n else now)\<rparr>
                          else m) (Note_docs s)\<rparr>)"
proof -
  from find_SomeD [OF assms(2)] have n: "n \<in> set (Note_docs s)" "note_id n = nid"
    by auto
  show ?thesis
  proof (cases "trashedAt n = Some now")
    case True
    with assms(3) have same: "n\<lparr>isTrashed := True, trashedAt := Some now\<rparr> = n"
      by simp
    have "map (\<lambda>m. if note_id m = nid then n else m) (Note_docs s) = Note_docs s"
      using map_same_note [OF assms(1) n(1)] n(2) by simp
    moreover from True have e:
      "n\<lparr>trashedAt := Some now,
         updatedAt := (if trashedAt n = Some now then updatedAt n else now)\<rparr> = n"
      by simp
    ultimately show ?thesis
      unfolding e using same assms(2,4)
      by (simp add: deleteNote_def moveToTrash_def Note_save_def)
  next
    case False
    then have diff: "n\<lparr>isTrashed := True, trashedAt := Some now\<rparr> \<noteq> n"
      by (metis note_doc.select_convs(11) note_doc.surjective note_doc.update_convs(10,11))
    from assms(3) have eq: "n\<lparr>isTrashed := True, trashedAt := Some now, updatedAt := now\<rparr> =
        n\<lparr>trashedAt := Some now, updatedAt := now\<rparr>"
      by simp
    from False diff assms(2,4) eq update_first_map [OF assms(1) n] n(2) show ?thesis
      by (simp add: deleteNote_def moveToTrash_def Note_save_def pre_save_def Let_def)
  qed
qed

lemma trash_again:
  "deleteNote 5000 7 1 None (db_of_notes [trashed_note]) =
     (Inr (MovedToTrash retrashed_note), db_of_notes [retrashed_note])"
  by (simp add: deleteNote_def moveToTrash_def Note_save_def db_of_notes_def example_notes
      pre_save_def Let_def)

theorem deleteNote_already_trashed_witness:
  "isTrashed trashed_note \<and>
   deleteNote 5000 7 1 None (db_of_notes [trashed_note]) =
     (Inr (MovedToTrash (trashed_note\<lparr>trashedAt := Some 5000, updatedAt := 5000\<rparr>)),
      db_of_notes [trashed_note\<lparr>trashedAt := Some 5000, updatedAt := 5000\<rparr>])"
proof -
  have d: "distinct (map note_id (Note_docs (db_of_notes [trashed_note])))"
    by (simp add: db_of_notes_def)
  have f: "find (\<lambda>n. note_id n = 1 \<and> user n = 7) (Note_docs (db_of_notes [trashed_note])) =
             Some trashed_note"
    by (simp add: db_of_notes_def example_notes)
  have t: "isTrashed trashed_note"
    by (simp add: example_notes)
  have p: "(None :: js_string option) \<noteq> Some (js ''true'')"
    by simp
  from deleteNote_already_trashed [OF d f t p, of 5000] t show ?thesis
    by (simp add: db_of_notes_def example_notes)
qed

text \<open>
  The second soft delete is not a no-op: the note trashed at time 3000 and soft-deleted
  again at time 5000 is stored with \<open>trashedAt = 5000\<close>, so the store after the call is
  not the store before it.
\<close>

theorem softDelete_not_noop_counterexample:
  "isTrashed trashed_note \<and> trashedAt trashed_note = Some 3000 \<and>
   deleteNote 5000 7 1 None (db_of_notes [trashed_note]) =
     (Inr (MovedToTrash retrashed_note), db_of_notes [retrashed_note]) \<and>
   trashedAt retrashed_note = Some 5000 \<and>
   db_of_notes [retrashed_note] \<noteq> db_of_notes [trashed_note]"
  using trash_again by (simp add: db_of_notes_def example_notes)

text \<open>
  C10. A successful \<open>restoreNote\<close> changes, on the restored note, only \<open>isTrashed\<close>,
  \<open>trashedAt\<close> and the store-managed \<open>updatedAt\<close>, and leaves every other note alone. The
  \<open>isArchived\<close> flag is therefore kept: a note that was archived and then trashed is, after
  the restore, in the archive view and in no page of the default view. (\<open>_id\<close> is unique
  in the store.)
\<close>

theorem restoreNote_frame:
  assumes "distinct (map note_id (Note_docs s))"
    and "restoreNote now uid nid s = (Inr n', s')"
  shows "\<exists>n. find (\<lambda>n. note_id n = nid \<and> user n = uid \<and> isTrashed n) (Note_docs s) = Some n \<and>
             n' = n\<lparr>isTrashed := False, trashedAt := None, updatedAt := now\<rparr> \<and>
             s' = s\<lparr>Note_docs := map (\<lambda>m. if note_id m = nid then n' else m) (Note_docs s)\<rparr> \<and>
             (isArchived n \<longrightarrow>
                n' \<in> set (getArchivedNotes uid s') \<and>
                (\<forall>rx fk q pg. getNotes rx fk uid q s' = Inr pg \<longrightarrow> n' \<notin> set (np_notes pg)))"
proof -
  from assms(2) obtain n where
    f: "find (\<lambda>n. note_id n = nid \<and> user n = uid \<and> isTrashed n) (Note_docs s) = Some n"
    and r: "restore now n s = (n', s')"
    by (auto simp: restoreNote_def split: option.splits prod.splits)
  from find_SomeD [OF f] have n: "n \<in> set (Note_docs s)" "note_id n = nid" "user n = uid" "isTrashed n"
    by auto
  from n(4) have diff: "n\<lparr>isTrashed := False, trashedAt := None\<rparr> \<noteq> n"
    by (metis note_doc.select_convs(10) note_doc.surjective note_doc.update_convs(10,11))
  from r diff have n': "n' = n\<lparr>isTrashed := False, trashedAt := None, updatedAt := now\<rparr>"
    and s': "s' = s\<lparr>Note_docs := update_first (\<lambda>m. note_id m = nid) n' (Note_docs s)\<rparr>"
    using n(2) by (auto simp: restore_def Note_save_def pre_save_def Let_def)
  from s' update_first_map [OF assms(1) n(1,2)]
  have s'': "s' = s\<lparr>Note_docs := map (\<lambda>m. if note_id m = nid then n' else m) (Note_docs s)\<rparr>"
    by simp
  have mem: "n' \<in> set (Note_docs s')"
    using n(1,2) by (auto simp: s'' image_iff)
  have arch: "n' \<in> set (getArchivedNotes uid s')" if "isArchived n"
    using that mem n(3) by (simp add: set_getArchivedNotes n')
  have hidden: "n' \<notin> set (np_notes pg)" if "isArchived n" and "getNotes rx fk uid q s' = Inr pg"
    for rx fk q pg
    using getNotes_members [OF that(2), of n'] that(1) by (auto simp: n')
  from f n' s'' arch hidden show ?thesis
    by blast
qed

lemma restore_trashed:
  "restoreNote 4000 7 1 (db_of_notes [trashed_note]) = (Inr restored_note, db_of_notes [restored_note])"
  by (simp add: restoreNote_def restore_def Note_save_def db_of_notes_def example_notes
      pre_save_def Let_def)

theorem restoreNote_frame_witness:
  "isArchived trashed_note \<and> isTrashed trashed_note \<and>
   restoreNote 4000 7 1 (db_of_notes [trashed_note]) = (Inr restored_note, db_of_notes [restored_note]) \<and>
   isArchived restored_note \<and>
   restored_note \<in> set (getArchivedNotes 7 (db_of_notes [restored_note])) \<and>
   restored_note \<notin> set (np_notes (projr (getNotes const_engine strict_store 7 all_query
                                          (db_of_notes [restored_note]))))"
proof -
  have d: "distinct (map note_id (Note_docs (db_of_notes [trashed_note])))"
    by (simp add: db_of_notes_def)
  have "filter (getNotes_filter 7 None all_query) (Note_docs (db_of_notes [restored_note])) = []"
    by (simp add: db_of_notes_def getNotes_filter_def all_query_def example_notes)
  then have g: "getNotes const_engine strict_store 7 all_query (db_of_notes [restored_note]) =
             Inr \<lparr>np_count = 0, np_total = 0, np_page = Num 1, np_pages = Num 0, np_notes = []\<rparr>"
    by (simp add: getNotes_defaults all_query_fields sort_notes_def sort_by_keys_def)
  have a: "isArchived trashed_note \<and> isTrashed trashed_note \<and> isArchived restored_note"
    by (simp add: example_notes)
  from restoreNote_frame [OF d restore_trashed] a
  have "restored_note \<in> set (getArchivedNotes 7 (db_of_notes [restored_note]))"
    by (auto simp: db_of_notes_def example_notes)
  with a g restore_trashed show ?thesis
    by simp
qed

section \<open>Update and the derived counts\<close>

text \<open>
  C2, evaluated on the code. \<open>updateNote\<close> writes through \<open>findByIdAndUpdate\<close>, for which
  the pre-save hook does not run: the note it returns is the stored note with the given
  fields set, and its \<open>wordCount\<close> and \<open>characterCount\<close> are those of the note before the
  update, whatever the new content is.
\<close>

theorem updateNote_keeps_counts:
  assumes "updateNote now uid nid b s = (Inr n', s')"
  shows "\<exists>old. find (\<lambda>m. note_id m = nid) (Note_docs s) = Some old \<and>
               n' = apply_update now b old \<and>
               content n' = opt_or (map_option js_trim (u_content b)) (content old) \<and>
               wordCount n' = wordCount old \<and> characterCount n' = characterCount old"
proof -
  from assms obtain old where
    "find (\<lambda>m. note_id m = nid) (Note_docs s) = Some old" and "n' = apply_update now b old"
    by (auto simp: updateNote_def Note_findByIdAndUpdate_def
             split: option.splits if_splits prod.splits sum.splits)
  then show ?thesis
    by (auto simp: apply_update_def)
qed

lemma update_shopping:
  "updateNote 2000 7 1 new_content_body (db_of_notes [shopping_note]) =
     (Inr (shopping_note\<lparr>content := js ''a b c d e'', updatedAt := 2000\<rparr>),
      db_of_notes [shopping_note\<lparr>content := js ''a b c d e'', updatedAt := 2000\<rparr>])"
  by (simp add: updateNote_def Note_findByIdAndUpdate_def new_content_body_def db_of_notes_def
      shopping_note_def no_update_fields_def update_validation_errors_def content_errors_def
      apply_update_def js_def js_trim_def is_ws_def)

theorem updateNote_keeps_counts_witness:
  "\<exists>n' s'. updateNote 2000 7 1 new_content_body (db_of_notes [shopping_note]) = (Inr n', s') \<and>
           content shopping_note = js ''milk  eggs bread'' \<and>
           content n' = js ''a b c d e'' \<and>
           wordCount n' = 3 \<and> count_words (content n') = 5 \<and>
           characterCount n' = 16 \<and> length (content n') = 9"
proof -
  let ?n = "shopping_note\<lparr>content := js ''a b c d e'', updatedAt := 2000\<rparr>"
  from updateNote_keeps_counts [OF update_shopping]
  have "wordCount ?n = 3 \<and> characterCount ?n = 16"
    by (auto simp: db_of_notes_def shopping_note_def)
  moreover have "count_words (js ''a b c d e'') = 5 \<and> length (js ''a b c d e'') = 9"
    by (simp add: count_words_def js_split_ws_def js_def js_trim_def is_ws_def)
  moreover have "content shopping_note = js ''milk  eggs bread''"
    by (simp add: shopping_note_def)
  ultimately show ?thesis
    using update_shopping by simp
qed

section \<open>Pagination\<close>







lemma getNotes_shopping:
  "getNotes rx fk 7 all_query (db_of_notes [shopping_note]) =
     Inr \<lparr>np_count = 1, np_total = 1, np_page = Num 1, np_pages = Num 1,
          np_notes = [shopping_note]\<rparr>"
proof -
  have f: "filter (getNotes_filter 7 None all_query) (Note_docs (db_of_notes [shopping_note])) =
             [shopping_note]"
    by (simp add: db_of_notes_def getNotes_filter_def all_query_def shopping_note_def)
  show ?thesis
    by (simp add: getNotes_defaults all_query_fields f sort_notes_single)
qed



text \<open>
  Two further requests: a page beyond \<open>2^53\<close> is reported as the double that \<open>parseInt\<close>
  returns, and an empty sort key, which the store of the examples rejects, ends with the
  500 response.
\<close>

lemma parseInt10_rounds: "parseInt10 (js ''9007199254740993'') = Num 9007199254740992"
  by code_simp

lemma getNotes_rejected_sort_key:
  "getNotes const_engine strict_store 7 (all_query\<lparr>q_sortBy := Some []\<rparr>)
       (db_of_notes [shopping_note]) =
     Inl (HttpError 500 ''Server error fetching notes'')"
  by (simp add: getNotes_def all_query_def sortOptions_def is_array_index_def key_order_def
      fixed_sort_keys_def strict_store_def js_def)

section \<open>Link shares\<close>

text \<open>
  C5, evaluated on the code. \<open>generateShareLink\<close> never succeeds: for a note that is not
  owned or is trashed it answers 404, and for an owned, non-trashed note the share it
  tries to create has \<open>sharedWith: null\<close>, which the schema's \<open>required\<close> rejects, so the
  handler answers 500. In both cases the store is left as it was and no link is returned.
\<close>

theorem generateShareLink_always_fails:
  "generateShareLink frontend_url rnd now uid b s =
     (case find (\<lambda>n. note_id n = lb_noteId b \<and> user n = uid \<and> isTrashed n = False) (Note_docs s) of
        None \<Rightarrow> (Inl (HttpError 404 ''Note not found''), s)
      | Some found \<Rightarrow> (Inl (HttpError 500 ''Server error while generating share link''), s))"
  by (simp add: generateShareLink_def SharedNote_create_def split: option.splits)

theorem generateShareLink_always_fails_witness:
  "user shopping_note = 7 \<and> isTrashed shopping_note = False \<and>
   generateShareLink None (replicate 32 0xAB) 5000 7 link_request (db_of_notes [shopping_note]) =
     (Inl (HttpError 500 ''Server error while generating share link''), db_of_notes [shopping_note])"
  using generateShareLink_always_fails
          [of None "replicate 32 0xAB" 5000 7 link_request "db_of_notes [shopping_note]"]
  by (simp add: link_request_def db_of_notes_def shopping_note_def)

text \<open>
  C6, evaluated on the code. A fetch by token never changes the store, so no view counter
  is ever incremented. With \<open>strictQuery\<close> off no share is found by its token and the
  fetch answers 404; with \<open>strictQuery\<close> on a fetch that succeeds reports the view count
  \<open>undefined + 1\<close>, which is \<open>NaN\<close>, on every call.
\<close>

theorem getSharedNoteByToken_counts_nothing:
  "snd (getSharedNoteByToken strictQuery now token s) = s \<and>
   getSharedNoteByToken False now token s = (Inl (HttpError 404 ''Shared note not found''), s) \<and>
   (\<forall>v. fst (getSharedNoteByToken True now token s) = Inr v \<longrightarrow>
      sv_viewCount v = Some (PNum NaN))"
  by (auto simp: getSharedNoteByToken_def SharedNote_findOne_shareToken_def SharedNote_save_def
      load_def set_prop_def get_prop_def Let_def split: option.splits list.splits if_splits)

theorem getSharedNoteByToken_counts_nothing_witness:
  "expiresAt direct_share = None \<and>
   getSharedNoteByToken False 5000 (js ''ab12'') share_db =
     (Inl (HttpError 404 ''Shared note not found''), share_db) \<and>
   getSharedNoteByToken True 5000 (js ''ab12'') share_db =
     (Inr \<lparr>sv_note = Some shopping_note, sv_owner = 7, sv_permission = js ''read'',
           sv_viewCount = Some (PNum NaN)\<rparr>, share_db)"
proof -
  have e: "getSharedNoteByToken True 5000 (js ''ab12'') share_db =
     (Inr \<lparr>sv_note = Some shopping_note, sv_owner = 7, sv_permission = js ''read'',
           sv_viewCount = Some (PNum NaN)\<rparr>, share_db)"
    by (simp add: getSharedNoteByToken_def SharedNote_findOne_shareToken_def SharedNote_save_def
        load_def set_prop_def get_prop_def Let_def share_db_def direct_share_def
        share_expired_def shopping_note_def)
  from getSharedNoteByToken_counts_nothing [of False 5000 "js ''ab12''" share_db] e
  show ?thesis
    by (simp add: direct_share_def)
qed

section \<open>Completing a reminder\<close>

text \<open>
  C7, evaluated on the code. \<open>completeReminder\<close> changes nothing in the store: the
  completion is assigned to \<open>status\<close> and the recurrence is read from \<open>recurringPattern\<close>,
  which are no paths of \<open>reminderSchema\<close> (the schema has \<open>isCompleted\<close> and
  \<open>recurringType\<close>), so nothing is written by \<open>save\<close>, the pattern reads as \<open>undefined\<close>
  and no successor is created, for a recurring reminder as for any other.
\<close>

theorem completeReminder_changes_nothing:
  "completeReminder now uid rid s =
     (case find (\<lambda>r. reminder_id r = rid \<and> reminder_user r = uid) (Reminder_docs s) of
        None \<Rightarrow> (Inl (HttpError 404 ''Reminder not found''), s)
      | Some r \<Rightarrow> (Inr r, s))"
  by (simp add: completeReminder_def Reminder_save_def load_def set_prop_def get_prop_def
      Let_def split: option.splits)

theorem completeReminder_changes_nothing_witness:
  "isRecurring daily_reminder \<and> recurringType daily_reminder = Some (js ''daily'') \<and>
   isCompleted daily_reminder = False \<and>
   calculateNextDate (reminderDate daily_reminder) (js ''daily'') = Some 1706781600000 \<and>
   completeReminder 9000 7 2 reminder_db = (Inr daily_reminder, reminder_db) \<and>
   Reminder_docs reminder_db = [daily_reminder]"
proof -
  have "calculateNextDate 1706695200000 (js ''daily'') = Some 1706781600000"
    by code_simp
  with completeReminder_changes_nothing [of 9000 7 2 reminder_db] show ?thesis
    by (simp add: reminder_db_def daily_reminder_def)
qed

section \<open>Tag names\<close>

text \<open>
  C9, evaluated on the code. The tag \<open>(a)\<close> exists for user 7, who creates the tag
  \<open>(A)\<close>. The name is put into the pattern unescaped: \<open>^(A)$\<close> is a group around one
  letter and does not match the three characters \<open>(a)\<close>. With an engine that says so,
  the check finds no existing tag and the second tag is created beside the first.
\<close>

theorem createTag_case_variant_created:
  assumes "rx (js ''^(A)$'') = Some m" and "m (js ''(a)'') = False"
  shows "createTag rx 2000 7 upper_paren_body (db_of_tags [paren_tag] 2) =
           (Inr upper_paren_tag, db_of_tags [paren_tag, upper_paren_tag] 3)"
proof -
  have p: "js ''^'' @ template_str (tb_name upper_paren_body) @ js ''$'' = js ''^(A)$''"
    by (simp add: upper_paren_body_def js_def)
  have t: "js_trim (js ''(A)'') = js ''(A)''"
    by (simp add: js_trim_def js_def is_ws_def)
  have n: "js ''(a)'' \<noteq> js ''(A)''"
    by (simp add: js_def)
  have c: "color_errors (js ''#3b82f6'') = []"
    by (simp add: color_errors_def valid_color_def is_hex_def js_def)
  have l: "length (js ''(A)'') = 3" "js ''(A)'' \<noteq> []"
    by (simp_all add: js_def)
  show ?thesis
    unfolding createTag_def p
    using assms t n c l
    by (simp add: db_of_tags_def paren_tag_def upper_paren_tag_def upper_paren_body_def
        Tag_create_def tag_name_errors_def Let_def)
qed

theorem createTag_case_variant_created_witness:
  "tag_name paren_tag = js ''(a)'' \<and> tag_name upper_paren_tag = js ''(A)'' \<and>
   tag_user paren_tag = tag_user upper_paren_tag \<and>
   createTag group_engine 2000 7 upper_paren_body (db_of_tags [paren_tag] 2) =
     (Inr upper_paren_tag, db_of_tags [paren_tag, upper_paren_tag] 3)"
proof -
  have a: "group_engine (js ''^(A)$'') = Some (\<lambda>t. map to_lower t = map to_lower (js ''A''))"
    by (simp add: group_engine_def js_def is_plain_def)
  have b: "(map to_lower (js ''(a)'') = map to_lower (js ''A'')) = False"
    by (simp add: js_def to_lower_def)
  from createTag_case_variant_created
         [of group_engine "\<lambda>t. map to_lower t = map to_lower (js ''A'')", OF a b]
  show ?thesis
    by (simp add: paren_tag_def upper_paren_tag_def)
qed

end
